theory Spec2Isabelle
  imports Main "HOL-Library.Word"
begin

unbundle bit_operations_syntax

section \<open>The scenario editor controller (src/openrct2/Editor.cpp)\<close>

text \<open>
  A shallow embedding of \<^verbatim>\<open>namespace Editor\<close>. The file is a controller: most of what it
  does is a call into another subsystem (object manager, window manager, importer, footpath
  queries, game actions). Those subsystems, and the constants and enumerations declared in
  other headers, are not part of the file. They enter the model in two ways:
  \<^item> constants, tables and subsystem calls whose meaning no statement below depends on are
    fields of the records \<open>Constants\<close> and \<open>Facade\<close>: every definition takes them as
    parameters \<open>K\<close> and \<open>F\<close>, and every theorem stated with \<open>K\<close> and \<open>F\<close> holds for all
    of them;
  \<^item> the few helpers whose effect a statement needs are defined from the specification's
    words; each such definition says so.
\<close>

subsection \<open>Enumerations named by the file\<close>

text \<open>\<^verbatim>\<open>EditorStep\<close>: every enumerator occurs in \<^verbatim>\<open>OpenWindowsForCurrentStep\<close>.\<close>

datatype EditorStep =
    ObjectSelection
  | InventionsListSetUp
  | OptionsSelection
  | ObjectiveSelection
  | LandscapeEditor
  | SaveScenario
  | RollercoasterDesigner
  | DesignsManager
  | Invalid

text \<open>
  \<^verbatim>\<open>ObjectType\<close>: the kinds the file names. \<open>NoneObject\<close> is the source's
  \<^verbatim>\<open>ObjectType::None\<close> (renamed: \<open>None\<close> is the constructor of \<open>option\<close>).
\<close>

datatype ObjectType =
    Ride
  | Station
  | TerrainSurface
  | TerrainEdge
  | FootpathSurface
  | FootpathRailings
  | ParkEntrance
  | Water
  | Paths
  | NoneObject

text \<open>The string identifiers the file returns or looks up.\<close>

datatype StringId =
    STR_NONE
  | STR_MY_NEW_SCENARIO
  | STR_AT_LEAST_ONE_FOOTPATH_NON_QUEUE_SURFACE_OBJECT_MUST_BE_SELECTED
  | STR_AT_LEAST_ONE_FOOTPATH_QUEUE_SURFACE_OBJECT_MUST_BE_SELECTED
  | STR_AT_LEAST_ONE_FOOTPATH_RAILING_OBJECT_MUST_BE_SELECTED
  | STR_AT_LEAST_ONE_RIDE_OBJECT_MUST_BE_SELECTED
  | STR_AT_LEAST_ONE_STATION_OBJECT_MUST_BE_SELECTED
  | STR_AT_LEAST_ONE_TERRAIN_SURFACE_OBJECT_MUST_BE_SELECTED
  | STR_AT_LEAST_ONE_TERRAIN_EDGE_OBJECT_MUST_BE_SELECTED
  | STR_PARK_ENTRANCE_TYPE_MUST_BE_SELECTED
  | STR_WATER_TYPE_MUST_BE_SELECTED
  | STR_PARK_MUST_OWN_SOME_LAND
  | STR_NO_PARK_ENTRANCES
  | STR_PARK_ENTRANCE_WRONG_DIRECTION_OR_NO_PATH
  | STR_PARK_ENTRANCE_PATH_INCOMPLETE_OR_COMPLEX
  | STR_PEEP_SPAWNS_NOT_SET

text \<open>The four replies of \<^verbatim>\<open>FootpathIsConnectedToMapEdge\<close> that \<^verbatim>\<open>CheckPark\<close> switches on.\<close>

datatype FootpathSearchResult =
    FOOTPATH_SEARCH_SUCCESS
  | FOOTPATH_SEARCH_NOT_FOUND
  | FOOTPATH_SEARCH_INCOMPLETE
  | FOOTPATH_SEARCH_TOO_COMPLEX

text \<open>\<^verbatim>\<open>FileExtension\<close>: the cases of the switch in \<^verbatim>\<open>LoadLandscape\<close>, and the rest.\<close>

datatype FileExtension = SC6 | SV6 | SC4 | SV4 | PARK | OtherExtension

datatype WindowClass = MainWindow | TopToolbar

datatype WindowView = WV_EDITOR_BOTTOM_TOOLBAR

datatype IntentAction =
    INTENT_ACTION_REFRESH_NEW_RIDES
  | INTENT_ACTION_CLEAR_TILE_INSPECTOR_CLIPBOARD

datatype LandSetRightSetting = SetForSale

datatype LandBuyRightSetting = BuyLand

subsection \<open>Plain data\<close>

text \<open>
  \<^verbatim>\<open>money64\<close> is a signed 64-bit count. The file only compares and copies such values
  (\<^verbatim>\<open>std::clamp\<close>, \<^verbatim>\<open>std::min\<close>, \<^verbatim>\<open>== 0\<close>), so no arithmetic can overflow and the
  model reads them as integers.
\<close>

type_synonym money64 = int

record TileCoordsXY =
  tile_x :: int
  tile_y :: int

record MapRange =
  range_left :: int
  range_top :: int
  range_right :: int
  range_bottom :: int

text \<open>\<^verbatim>\<open>CoordsXYZD\<close>, the type of a park entrance: a position and the way it faces.\<close>

record CoordsXYZD =
  coord_x :: int
  coord_y :: int
  coord_z :: int
  direction :: "8 word"

datatype GameAction =
    LandSetRightsAction MapRange LandSetRightSetting "32 word"
  | LandBuyRightsAction MapRange LandBuyRightSetting "32 word"

text \<open>\<^verbatim>\<open>ResultWithMessage\<close>: \<^verbatim>\<open>{ bool Successful; StringId Message; }\<close>.\<close>

type_synonym ResultWithMessage = "bool \<times> StringId"

subsection \<open>Constants and tables declared in other headers\<close>

text \<open>
  None of these is defined in the file. \<open>GBP\<close> stands for the currency literal
  \<^verbatim>\<open>_GBP\<close> at whole amounts (\<^verbatim>\<open>10.00_GBP\<close> is \<open>GBP K 10\<close>); \<open>EnumValue\<close> is the
  underlying value of an \<^verbatim>\<open>ObjectType\<close> and \<open>ObjectTypeCount\<close> is
  \<^verbatim>\<open>EnumValue(ObjectType::Count)\<close>; \<open>OBJECT_ENTRY_INDEX_NULL\<close> is the constant as the
  comparison with a \<^verbatim>\<open>size_t\<close> sees it; \<open>ToCoordsXYZ\<close> is
  \<^verbatim>\<open>TileCoordsXYZ::ToCoordsXYZ\<close>. Two fields describe the build and the run-time library:
  \<open>NDEBUG\<close> says that \<^verbatim>\<open>assert\<close> is compiled out, and \<open>vector_max_size\<close> is the
  longest byte vector that \<^verbatim>\<open>std::vector::resize\<close> is granted (beyond it the call throws
  \<^verbatim>\<open>length_error\<close> or \<^verbatim>\<open>bad_alloc\<close>). \<^verbatim>\<open>size_t\<close> is taken at 64 bits.
\<close>

record Constants =
  OBJECT_ENTRY_INDEX_NULL :: "64 word"
  EnumValue :: "ObjectType \<Rightarrow> nat"
  ObjectTypeCount :: nat
  object_entry_group_counts :: "nat \<Rightarrow> int"
  NDEBUG :: bool
  vector_max_size :: "64 word"
  SCREEN_FLAGS_SCENARIO_EDITOR :: "8 word"
  SCREEN_FLAGS_TRACK_DESIGNER :: "8 word"
  SCREEN_FLAGS_TRACK_MANAGER :: "8 word"
  PARK_FLAGS_SHOW_REAL_GUEST_NAMES :: "64 word"
  PARK_FLAGS_NO_MONEY :: "64 word"
  PARK_FLAGS_PARK_FREE_ENTRY :: "64 word"
  PARK_FLAGS_SPRITES_INITIALISED :: "64 word"
  SCENARIO_CATEGORY_OTHER :: "8 word"
  DEFAULT_MAP_SIZE :: TileCoordsXY
  COORDS_XY_STEP :: int
  ToCoordsXYZ :: "int \<times> int \<times> int \<Rightarrow> int \<times> int \<times> int"
  GAME_COMMAND_FLAG_NO_SPEND :: "32 word"
  MODAL_RESULT_OK :: int
  GBP :: "int \<Rightarrow> money64"
  MAX_ENTRANCE_FEE :: money64
  MaxBankLoanInterestRate :: "8 word"
  MinimumRequiredObjects :: "string list"

section \<open>The selected-object flag store\<close>

text \<open>
  \<^verbatim>\<open>static std::array<std::vector<uint8_t>, EnumValue(ObjectType::Count)>
  _editorSelectedObjectFlags\<close>: an array of byte vectors, one for each value below
  \<^verbatim>\<open>EnumValue(ObjectType::Count)\<close>. The array is a list of that length, a vector is a
  list of bytes, an index is a \<^verbatim>\<open>size_t\<close>.

  What C++ leaves undefined or ends by a failure is a value of the model: indexing the
  array or a vector outside its bounds is \<open>OutOfBounds\<close>, a failed \<^verbatim>\<open>assert\<close> is
  \<open>AssertionFailed\<close>, a \<^verbatim>\<open>resize\<close> that is not granted is \<open>AllocationFailed\<close>.
\<close>

datatype Fault = OutOfBounds | AssertionFailed | AllocationFailed

type_synonym FlagStore = "8 word list list"

text \<open>
  \<^verbatim>\<open>std::vector::resize\<close>: cut, or extend with value-initialised (zero) bytes if the
  new length is granted.
\<close>

definition resize :: "Constants \<Rightarrow> nat \<Rightarrow> 8 word list \<Rightarrow> Fault + 8 word list" where
  "resize K n xs =
     (if n \<le> length xs then Inr (take n xs)
      else if unat (vector_max_size K) < n then Inl AllocationFailed
      else Inr (xs @ replicate (n - length xs) 0))"

text \<open>
  \<^verbatim>\<open>GetSelectedObjectFlags\<close> takes the vector by reference and only reads it; the model
  returns the store it leaves next to the byte it reads.
\<close>

definition GetSelectedObjectFlags ::
  "Constants \<Rightarrow> ObjectType \<Rightarrow> 64 word \<Rightarrow> FlagStore \<Rightarrow> Fault + (8 word \<times> FlagStore)" where
  "GetSelectedObjectFlags K objectType index s =
     (let result = 0
      in if length s \<le> EnumValue K objectType then Inl OutOfBounds
         else
           (let list = s ! EnumValue K objectType;
                result = (if length list > unat index then list ! unat index else result)
            in Inr (result, s)))"

text \<open>
  \<^verbatim>\<open>list[index] &= ~flags\<close> with a \<^verbatim>\<open>uint8_t\<close> slot and \<^verbatim>\<open>uint32_t flags\<close>: the slot is
  widened, combined at 32 bits, and the result is cut to its low byte. \<^verbatim>\<open>index + 1\<close> is
  \<^verbatim>\<open>size_t\<close> arithmetic: it wraps to zero at the largest index.
\<close>

definition ClearSelectedObject ::
  "Constants \<Rightarrow> ObjectType \<Rightarrow> 64 word \<Rightarrow> 32 word \<Rightarrow> FlagStore \<Rightarrow> Fault + FlagStore" where
  "ClearSelectedObject K objectType index flags s =
     (if length s \<le> EnumValue K objectType then Inl OutOfBounds
      else
        (let list = s ! EnumValue K objectType
         in case (if length list \<le> unat index then resize K (unat (index + 1)) list
                  else Inr list) of
              Inl fault \<Rightarrow> Inl fault
            | Inr list \<Rightarrow>
                if length list \<le> unat index then Inl OutOfBounds
                else Inr (s[EnumValue K objectType :=
                       list[unat index :=
                         ucast ((ucast (list ! unat index) :: 32 word) AND NOT flags)]])))"

text \<open>
  The condition of the \<^verbatim>\<open>assert\<close> in \<^verbatim>\<open>SetSelectedObject\<close>:
  \<^verbatim>\<open>static_cast<int32_t>(objectType) <
  object_entry_group_counts[EnumValue(ObjectType::Paths)]\<close>.
\<close>

definition SetSelectedObject_assertion :: "Constants \<Rightarrow> ObjectType \<Rightarrow> bool" where
  "SetSelectedObject_assertion K objectType =
     (int (EnumValue K objectType) < object_entry_group_counts K (EnumValue K Paths))"

definition SetSelectedObject ::
  "Constants \<Rightarrow> ObjectType \<Rightarrow> 64 word \<Rightarrow> 32 word \<Rightarrow> FlagStore \<Rightarrow> Fault + FlagStore" where
  "SetSelectedObject K objectType index flags s =
     (if index \<noteq> OBJECT_ENTRY_INDEX_NULL K then
        (if \<not> NDEBUG K \<and> \<not> SetSelectedObject_assertion K objectType then Inl AssertionFailed
         else if length s \<le> EnumValue K objectType then Inl OutOfBounds
         else
           (let list = s ! EnumValue K objectType
            in case (if length list \<le> unat index then resize K (unat (index + 1)) list
                     else Inr list) of
                 Inl fault \<Rightarrow> Inl fault
               | Inr list \<Rightarrow>
                   if length list \<le> unat index then Inl OutOfBounds
                   else Inr (s[EnumValue K objectType :=
                          list[unat index :=
                            ucast ((ucast (list ! unat index) :: 32 word) OR flags)]])))
      else Inr s)"

text \<open>The store of a fresh process: every vector of the static array is empty.\<close>

definition fresh_store :: "Constants \<Rightarrow> FlagStore" where
  "fresh_store K = replicate (ObjectTypeCount K) []"

text \<open>What a read sees in a vector: its byte there, or zero past its end.\<close>

definition slot :: "8 word list \<Rightarrow> nat \<Rightarrow> 8 word" where
  "slot xs i = (if i < length xs then xs ! i else 0)"

text \<open>A vector made long enough to hold index \<open>n\<close>, the new bytes zero.\<close>

definition grown :: "nat \<Rightarrow> 8 word list \<Rightarrow> 8 word list" where
  "grown n xs = (if length xs \<le> n then xs @ replicate (Suc n - length xs) 0 else xs)"

section \<open>The game state and the editor's globals\<close>

subsection \<open>Entities, banners and the park\<close>

datatype EntityType = Guest | Staff | OtherEntity

record Entity =
  EntityKind :: EntityType
  EntityName :: string
  EntityPatrolArea :: "(int \<times> int) list"

text \<open>\<^verbatim>\<open>gameState.Park\<close>: the three members the file reads or writes.\<close>

record Park_t =
  Flags :: "64 word"
  EntranceFee :: money64
  Entrances :: "CoordsXYZD list"

text \<open>
  \<^verbatim>\<open>GameState_t\<close>. The first group of fields are the members the file names. The second
  group stands for state the file reaches only through helpers defined elsewhere (cash in
  hand, the cached park size, rides, banners, entities, patrol areas, news); their shape
  follows the specification's description of the cleanup. \<open>TileElements\<close> is the tile map, of a type
  \<open>'m\<close> the file never looks into: the park-size and footpath queries read and write it.
\<close>

record 'm GameState_t =
  EditorStep :: EditorStep
  Park :: Park_t
  ScenarioCategory :: "8 word"
  ScenarioName :: string
  MapSize :: TileCoordsXY
  NumGuestsInPark :: "32 word"
  NumGuestsHeadingForPark :: "32 word"
  NumGuestsInParkLastWeek :: "32 word"
  GuestChangeModifier :: "8 word"
  GuestInitialCash :: money64
  InitialCash :: money64
  BankLoan :: money64
  MaxBankLoan :: money64
  BankLoanInterestRate :: "8 word"
  Climate :: nat
  PeepSpawns :: "CoordsXYZD list"
  SavedView :: "int \<times> int"
  SavedViewZoom :: int
  SavedViewRotation :: "8 word"
  Cash :: money64
  ParkSize :: "32 word"
  MapRides :: "nat list"
  RideRegistry :: "nat list"
  BannerRideLinks :: "nat option list"
  Entities :: "Entity list"
  ConsolidatedPatrolAreas :: "(int \<times> int) list"
  NewsItems :: "StringId list"
  TileElements :: 'm

text \<open>
  The globals next to the game state: \<^verbatim>\<open>gScreenFlags\<close>, \<^verbatim>\<open>gScreenAge\<close>,
  \<^verbatim>\<open>gWindowUpdateTicks\<close>, and \<open>ext\<close>, of a type \<open>'x\<close> the file never looks into: audio,
  object repository and manager, windows, viewports, palette, the sprite index, the scenery
  placement configuration, the importer's buffers.
\<close>

record ('m, 'x) World =
  gameState :: "'m GameState_t"
  gScreenFlags :: "8 word"
  gScreenAge :: "32 word"
  gWindowUpdateTicks :: "16 word"
  ext :: 'x

subsection \<open>The collaborators\<close>

text \<open>Calls that act on \<open>ext\<close> alone and return nothing the file uses.\<close>

datatype EnvCall =
    Audio_StopAll
  | ObjectManager_UnloadAll
  | ObjectRepository_LoadOrConstruct
  | Audio_LoadAudioObjects
  | ObjectManager_LoadObject string
  | ObjectManagerUnloadAllObjects
  | ViewportInitAll
  | ContextOpenWindowView WindowView
  | Window_SetLocation nat "int \<times> int \<times> int"
  | LoadPalette
  | WindowCloseAll
  | WindowManager_SetMainView "int \<times> int" int "8 word"
  | ResetAllSpriteQuadrantPlacements
  | ScenerySetDefaultPlacementConfiguration
  | WindowManager_BroadcastIntent IntentAction

text \<open>
  Modelled from the spec: \<^verbatim>\<open>Context::LoadParkFromFile\<close> is defined outside the file. The
  specification's error design says of a failed load that no partial world state is
  committed. So a park loader returns \<open>None\<close> for a failed load, which leaves the world as
  it was, and \<open>Some\<close> of the loaded world otherwise.
\<close>

type_synonym ('m, 'x) ParkLoader = "string \<Rightarrow> ('m, 'x) World \<Rightarrow> ('m, 'x) World option"

text \<open>
  The subsystems behind the file, as parameters. Each field has the type of the part of the
  state its C++ counterpart works on:
  \<^item> \<open>env_call\<close>, \<open>ContextOpenWindow\<close> (which returns the window it opened) and
    \<open>LanguageGetString\<close> work on \<open>ext\<close>;
  \<^item> \<open>gameStateInitAll\<close>, \<open>ScenarioReset\<close>, \<open>GameActions_Execute\<close> and
    \<open>Park_UpdateSize\<close> (which returns the size it computed) work on the game state;
  \<^item> \<open>FootpathIsConnectedToMapEdge\<close> works on the tile map and returns its reply;
  \<^item> the two \<open>EditorCheckObjectGroup...\<close> predicates read the object selection;
  \<^item> \<open>LoadParkFromFile\<close> is a park loader as above;
  \<^item> the calls made inside the \<^verbatim>\<open>try\<close> block of \<^verbatim>\<open>ReadPark\<close> return, next to the state
    they leave, whether they returned normally (\<open>None\<close> or \<open>False\<close>: an exception was
    thrown).
\<close>

record ('m, 'x) Facade =
  env_call :: "EnvCall \<Rightarrow> 'x \<Rightarrow> 'x"
  ContextOpenWindow :: "WindowClass \<Rightarrow> 'x \<Rightarrow> nat \<times> 'x"
  LanguageGetString :: "StringId \<Rightarrow> 'x \<Rightarrow> string"
  gameStateInitAll :: "TileCoordsXY \<Rightarrow> 'm GameState_t \<Rightarrow> 'm GameState_t"
  ScenarioReset :: "'m GameState_t \<Rightarrow> 'm GameState_t"
  GameActions_Execute :: "GameAction \<Rightarrow> 'm GameState_t \<Rightarrow> 'm GameState_t"
  Park_UpdateSize :: "'m GameState_t \<Rightarrow> 32 word \<times> 'm GameState_t"
  FootpathIsConnectedToMapEdge ::
    "CoordsXYZD \<Rightarrow> 32 word \<Rightarrow> 32 word \<Rightarrow> 'm \<Rightarrow> FootpathSearchResult \<times> 'm"
  DirectionReverse :: "8 word \<Rightarrow> 8 word"
  ClimateReset :: "nat \<Rightarrow> nat"
  EditorCheckObjectGroupAtLeastOneSurfaceSelected :: "bool \<Rightarrow> ('m, 'x) World \<Rightarrow> bool"
  EditorCheckObjectGroupAtLeastOneSelected :: "ObjectType \<Rightarrow> ('m, 'x) World \<Rightarrow> bool"
  GetFileExtensionType :: "string \<Rightarrow> FileExtension"
  Path_GetExtension :: "string \<Rightarrow> string"
  String_IEquals :: "string \<Rightarrow> string \<Rightarrow> bool"
  LoadParkFromFile :: "('m, 'x) ParkLoader"
  ParkImporter_Load :: "string \<Rightarrow> 'x \<Rightarrow> string list option \<times> 'x"
  ObjectManager_LoadObjects :: "string list \<Rightarrow> 'x \<Rightarrow> bool \<times> 'x"
  ParkImporter_Import :: "'x \<Rightarrow> 'm GameState_t \<Rightarrow> bool \<times> 'm GameState_t"

text \<open>An \<open>env_call\<close> inside a function that works on the whole world.\<close>

definition call :: "('m, 'x) Facade \<Rightarrow> EnvCall \<Rightarrow> ('m, 'x) World \<Rightarrow> ('m, 'x) World" where
  "call F c w = w\<lparr>ext := env_call F c (ext w)\<rparr>"

definition on_gameState ::
  "('m GameState_t \<Rightarrow> 'm GameState_t) \<Rightarrow> ('m, 'x) World \<Rightarrow> ('m, 'x) World" where
  "on_gameState f w = w\<lparr>gameState := f (gameState w)\<rparr>"

definition on_Park :: "(Park_t \<Rightarrow> Park_t) \<Rightarrow> 'm GameState_t \<Rightarrow> 'm GameState_t" where
  "on_Park f gs = gs\<lparr>Park := f (Park gs)\<rparr>"

text \<open>
  \<^verbatim>\<open>std::clamp(v, lo, hi)\<close>, as the standard library computes it; the standard asks for
  \<open>lo \<le> hi\<close>.
\<close>

definition std_clamp :: "'a::linorder \<Rightarrow> 'a \<Rightarrow> 'a \<Rightarrow> 'a" where
  "std_clamp v lo hi = (if v < lo then lo else if hi < v then hi else v)"

section \<open>Helpers of the cleanup that are defined elsewhere\<close>

text \<open>
  Modelled from the spec: \<^verbatim>\<open>MapRemoveAllRides\<close> is defined outside the file. The
  specification: "Remove all rides from the map".
\<close>

definition MapRemoveAllRides :: "'m GameState_t \<Rightarrow> 'm GameState_t" where
  "MapRemoveAllRides gs = gs\<lparr>MapRides := []\<rparr>"

text \<open>
  Modelled from the spec: \<^verbatim>\<open>UnlinkAllRideBanners\<close> is defined outside the file. The
  specification: "unlink all banners from rides". Every banner stays; none keeps a ride.
\<close>

definition UnlinkAllRideBanners :: "'m GameState_t \<Rightarrow> 'm GameState_t" where
  "UnlinkAllRideBanners gs = gs\<lparr>BannerRideLinks := map (\<lambda>_. None) (BannerRideLinks gs)\<rparr>"

text \<open>
  Modelled from the spec: \<^verbatim>\<open>RideInitAll\<close> is defined outside the file. The specification:
  "reinitialise the ride registry".
\<close>

definition RideInitAll :: "'m GameState_t \<Rightarrow> 'm GameState_t" where
  "RideInitAll gs = gs\<lparr>RideRegistry := []\<rparr>"

text \<open>\<^verbatim>\<open>SetName({})\<close> on one entity: the name is cleared.\<close>

definition SetName :: "string \<Rightarrow> Entity \<Rightarrow> Entity" where
  "SetName n e = e\<lparr>EntityName := n\<rparr>"

text \<open>
  Modelled from the spec: \<^verbatim>\<open>ResetAllEntities\<close> is defined outside the file. The
  specification: "Reset all entities to their clean state": no entity is left.
\<close>

definition ResetAllEntities :: "'m GameState_t \<Rightarrow> 'm GameState_t" where
  "ResetAllEntities gs = gs\<lparr>Entities := []\<rparr>"

text \<open>
  Modelled from the spec: \<^verbatim>\<open>UpdateConsolidatedPatrolAreas\<close> is defined outside the file.
  The specification: "recompute consolidated staff patrol areas".
\<close>

definition UpdateConsolidatedPatrolAreas :: "'m GameState_t \<Rightarrow> 'm GameState_t" where
  "UpdateConsolidatedPatrolAreas gs =
     gs\<lparr>ConsolidatedPatrolAreas :=
          concat (map EntityPatrolArea (filter (\<lambda>e. EntityKind e = Staff) (Entities gs)))\<rparr>"

text \<open>
  Modelled from the spec: \<^verbatim>\<open>FinanceResetCashToInitial\<close> is defined outside the file. The
  specification: "refresh the runtime cash-on-hand to that initial value".
\<close>

definition FinanceResetCashToInitial :: "'m GameState_t \<Rightarrow> 'm GameState_t" where
  "FinanceResetCashToInitial gs = gs\<lparr>Cash := InitialCash gs\<rparr>"

text \<open>
  Modelled from the spec: \<^verbatim>\<open>News::InitQueue\<close> is defined outside the file. The
  specification: "Clear the news queue".
\<close>

definition News_InitQueue :: "'m GameState_t \<Rightarrow> 'm GameState_t" where
  "News_InitQueue gs = gs\<lparr>NewsItems := []\<rparr>"

section \<open>The controller\<close>

subsection \<open>\<^verbatim>\<open>ObjectListLoad\<close>, \<^verbatim>\<open>OpenEditorWindows\<close>, \<^verbatim>\<open>FinaliseMainView\<close>\<close>

definition ObjectListLoad :: "('m, 'x) Facade \<Rightarrow> Constants \<Rightarrow> ('m, 'x) World \<Rightarrow> ('m, 'x) World" where
  "ObjectListLoad F K w =
     (let w = call F ObjectManager_UnloadAll w;
          w = call F ObjectRepository_LoadOrConstruct w;
          w = call F Audio_LoadAudioObjects w
      in fold (\<lambda>entry. call F (ObjectManager_LoadObject entry)) (MinimumRequiredObjects K) w)"

text \<open>Returns the main window with the world.\<close>

definition OpenEditorWindows :: "('m, 'x) Facade \<Rightarrow> ('m, 'x) World \<Rightarrow> nat \<times> ('m, 'x) World" where
  "OpenEditorWindows F w =
     (let (main, x1) = ContextOpenWindow F MainWindow (ext w);
          (top, x2) = ContextOpenWindow F TopToolbar x1;
          x3 = env_call F (ContextOpenWindowView WV_EDITOR_BOTTOM_TOOLBAR) x2
      in (main, w\<lparr>ext := x3\<rparr>))"

definition FinaliseMainView :: "('m, 'x) Facade \<Rightarrow> ('m, 'x) World \<Rightarrow> ('m, 'x) World" where
  "FinaliseMainView F w =
     (let gs = gameState w;
          w = call F (WindowManager_SetMainView (SavedView gs) (SavedViewZoom gs)
                (SavedViewRotation gs)) w;
          w = call F ResetAllSpriteQuadrantPlacements w;
          w = call F ScenerySetDefaultPlacementConfiguration w;
          w = call F (WindowManager_BroadcastIntent INTENT_ACTION_REFRESH_NEW_RIDES) w;
          w = w\<lparr>gWindowUpdateTicks := 0\<rparr>;
          w = call F LoadPalette w;
          w = call F (WindowManager_BroadcastIntent INTENT_ACTION_CLEAR_TILE_INSPECTOR_CLIPBOARD) w
      in w)"

subsection \<open>\<^verbatim>\<open>Load\<close>: enter the scenario editor\<close>

definition Load :: "('m, 'x) Facade \<Rightarrow> Constants \<Rightarrow> ('m, 'x) World \<Rightarrow> ('m, 'x) World" where
  "Load F K w =
     (let w = call F Audio_StopAll w;
          w = ObjectListLoad F K w;
          w = on_gameState (gameStateInitAll F (DEFAULT_MAP_SIZE K)) w;
          w = w\<lparr>gScreenFlags := SCREEN_FLAGS_SCENARIO_EDITOR K\<rparr>;
          w = on_gameState (\<lambda>gs. gs\<lparr>EditorStep := ObjectSelection\<rparr>) w;
          w = on_gameState
                (on_Park (\<lambda>p. p\<lparr>Flags := Flags p OR PARK_FLAGS_SHOW_REAL_GUEST_NAMES K\<rparr>)) w;
          w = on_gameState (\<lambda>gs. gs\<lparr>ScenarioCategory := SCENARIO_CATEGORY_OTHER K\<rparr>) w;
          w = call F ViewportInitAll w;
          (mainWindow, w) = OpenEditorWindows F w;
          w = call F (Window_SetLocation mainWindow (ToCoordsXYZ K (75, 75, 14))) w;
          w = call F LoadPalette w;
          w = w\<lparr>gScreenAge := 0\<rparr>;
          w = on_gameState
                (\<lambda>gs. gs\<lparr>ScenarioName := LanguageGetString F STR_MY_NEW_SCENARIO (ext w)\<rparr>) w
      in w)"

subsection \<open>\<^verbatim>\<open>ConvertSaveToScenarioCallback\<close>\<close>

text \<open>
  \<^verbatim>\<open>ConvertSaveToScenario\<close> itself only cancels the tool and opens the load/save window
  with this callback; the window calls it later with the picker's result and path.
\<close>

definition ConvertSaveToScenarioCallback ::
  "('m, 'x) Facade \<Rightarrow> Constants \<Rightarrow> int \<Rightarrow> string \<Rightarrow> ('m, 'x) World \<Rightarrow> ('m, 'x) World" where
  "ConvertSaveToScenarioCallback F K result path w =
     (if result \<noteq> MODAL_RESULT_OK K then w
      else
        (case LoadParkFromFile F path w of
           None \<Rightarrow> w
         | Some w \<Rightarrow>
             (let w = on_gameState (ScenarioReset F) w;
                  w = w\<lparr>gScreenFlags := SCREEN_FLAGS_SCENARIO_EDITOR K\<rparr>;
                  w = on_gameState (\<lambda>gs. gs\<lparr>EditorStep := ObjectiveSelection\<rparr>) w;
                  w = on_gameState (\<lambda>gs. gs\<lparr>ScenarioCategory := SCENARIO_CATEGORY_OTHER K\<rparr>) w;
                  w = call F ViewportInitAll w;
                  w = snd (OpenEditorWindows F w);
                  w = FinaliseMainView F w;
                  w = w\<lparr>gScreenAge := 0\<rparr>
              in w)))"

subsection \<open>\<^verbatim>\<open>SetAllLandOwned\<close>, \<^verbatim>\<open>LoadTrackDesigner\<close>, \<^verbatim>\<open>LoadTrackManager\<close>\<close>

definition SetAllLandOwned ::
  "('m, 'x) Facade \<Rightarrow> Constants \<Rightarrow> 'm GameState_t \<Rightarrow> 'm GameState_t" where
  "SetAllLandOwned F K gs =
     (let range = \<lparr>range_left = 2 * COORDS_XY_STEP K, range_top = 2 * COORDS_XY_STEP K,
                    range_right = (tile_x (MapSize gs) - 3) * COORDS_XY_STEP K,
                    range_bottom = (tile_y (MapSize gs) - 3) * COORDS_XY_STEP K\<rparr>;
          landSetRightsAction = LandSetRightsAction range SetForSale (GAME_COMMAND_FLAG_NO_SPEND K);
          gs = GameActions_Execute F landSetRightsAction gs;
          landBuyRightsAction = LandBuyRightsAction range BuyLand (GAME_COMMAND_FLAG_NO_SPEND K);
          gs = GameActions_Execute F landBuyRightsAction gs
      in gs)"

definition LoadTrackDesigner :: "('m, 'x) Facade \<Rightarrow> Constants \<Rightarrow> ('m, 'x) World \<Rightarrow> ('m, 'x) World" where
  "LoadTrackDesigner F K w =
     (let w = call F Audio_StopAll w;
          w = w\<lparr>gScreenFlags := SCREEN_FLAGS_TRACK_DESIGNER K\<rparr>;
          w = w\<lparr>gScreenAge := 0\<rparr>;
          w = call F ObjectManagerUnloadAllObjects w;
          w = ObjectListLoad F K w;
          w = on_gameState (gameStateInitAll F (DEFAULT_MAP_SIZE K)) w;
          w = on_gameState (SetAllLandOwned F K) w;
          w = on_gameState (\<lambda>gs. gs\<lparr>EditorStep := ObjectSelection\<rparr>) w;
          w = call F ViewportInitAll w;
          (mainWindow, w) = OpenEditorWindows F w;
          w = call F (Window_SetLocation mainWindow (ToCoordsXYZ K (75, 75, 14))) w;
          w = call F LoadPalette w
      in w)"

definition LoadTrackManager :: "('m, 'x) Facade \<Rightarrow> Constants \<Rightarrow> ('m, 'x) World \<Rightarrow> ('m, 'x) World" where
  "LoadTrackManager F K w =
     (let w = call F Audio_StopAll w;
          w = w\<lparr>gScreenFlags := SCREEN_FLAGS_TRACK_MANAGER K\<rparr>;
          w = w\<lparr>gScreenAge := 0\<rparr>;
          w = call F ObjectManagerUnloadAllObjects w;
          w = ObjectListLoad F K w;
          w = on_gameState (gameStateInitAll F (DEFAULT_MAP_SIZE K)) w;
          w = on_gameState (SetAllLandOwned F K) w;
          w = on_gameState (\<lambda>gs. gs\<lparr>EditorStep := ObjectSelection\<rparr>) w;
          w = call F ViewportInitAll w;
          (mainWindow, w) = OpenEditorWindows F w;
          w = call F (Window_SetLocation mainWindow (ToCoordsXYZ K (75, 75, 14))) w;
          w = call F LoadPalette w
      in w)"

subsection \<open>\<^verbatim>\<open>ClearMapForEditing\<close>: the landscape-import cleanup\<close>

definition ClearMapForEditing ::
  "('m, 'x) Facade \<Rightarrow> Constants \<Rightarrow> bool \<Rightarrow> 'm GameState_t \<Rightarrow> 'm GameState_t" where
  "ClearMapForEditing F K fromSave gs =
     (let gs = MapRemoveAllRides gs;
          gs = UnlinkAllRideBanners gs;
          gs = RideInitAll gs;
          gs = Entities_update (map (\<lambda>e. if EntityKind e = Guest then SetName [] e else e)) gs;
          gs = Entities_update (map (\<lambda>e. if EntityKind e = Staff then SetName [] e else e)) gs;
          gs = ResetAllEntities gs;
          gs = UpdateConsolidatedPatrolAreas gs;
          gs = gs\<lparr>NumGuestsInPark := 0\<rparr>;
          gs = gs\<lparr>NumGuestsHeadingForPark := 0\<rparr>;
          gs = gs\<lparr>NumGuestsInParkLastWeek := 0\<rparr>;
          gs = gs\<lparr>GuestChangeModifier := 0\<rparr>;
          gs = (if fromSave then
                  (let gs = on_Park (Flags_update (\<lambda>fl. fl OR PARK_FLAGS_NO_MONEY K)) gs;
                       gs = (if EntranceFee (Park gs) = 0
                             then on_Park (Flags_update (\<lambda>fl. fl OR PARK_FLAGS_PARK_FREE_ENTRY K)) gs
                             else on_Park
                                    (Flags_update (\<lambda>fl. fl AND NOT (PARK_FLAGS_PARK_FREE_ENTRY K))) gs);
                       gs = on_Park
                              (Flags_update (\<lambda>fl. fl AND NOT (PARK_FLAGS_SPRITES_INITIALISED K))) gs;
                       gs = GuestInitialCash_update
                              (\<lambda>v. std_clamp v (GBP K 10) (MAX_ENTRANCE_FEE K)) gs;
                       gs = InitialCash_update (\<lambda>v. min v 100000) gs;
                       gs = FinanceResetCashToInitial gs;
                       gs = BankLoan_update (\<lambda>v. std_clamp v (GBP K 0) (GBP K 5000000)) gs;
                       gs = MaxBankLoan_update (\<lambda>v. std_clamp v (GBP K 0) (GBP K 5000000)) gs;
                       gs = BankLoanInterestRate_update
                              (\<lambda>v. std_clamp v 5 (MaxBankLoanInterestRate K)) gs
                   in gs)
                else gs);
          gs = Climate_update (ClimateReset F) gs;
          gs = News_InitQueue gs
      in gs)"

subsection \<open>\<^verbatim>\<open>AfterLoadCleanup\<close>, \<^verbatim>\<open>ReadS4OrS6\<close>, \<^verbatim>\<open>ReadPark\<close>, \<^verbatim>\<open>LoadLandscape\<close>\<close>

definition AfterLoadCleanup ::
  "('m, 'x) Facade \<Rightarrow> Constants \<Rightarrow> bool \<Rightarrow> ('m, 'x) World \<Rightarrow> ('m, 'x) World" where
  "AfterLoadCleanup F K loadedFromSave w =
     (let w = on_gameState (ClearMapForEditing F K loadedFromSave) w;
          w = on_gameState (\<lambda>gs. gs\<lparr>EditorStep := LandscapeEditor\<rparr>) w;
          w = w\<lparr>gScreenAge := 0\<rparr>;
          w = w\<lparr>gScreenFlags := SCREEN_FLAGS_SCENARIO_EDITOR K\<rparr>;
          w = call F ViewportInitAll w;
          w = snd (OpenEditorWindows F w);
          w = FinaliseMainView F w
      in w)"

text \<open>
  The flag \<^verbatim>\<open>ReadS4OrS6\<close> passes on. The third disjunct is the source's
  \<^verbatim>\<open>String::IEquals(extension, ".sv7") == 0\<close>: the \<^verbatim>\<open>bool\<close> is converted to \<open>0\<close> or
  \<open>1\<close> and compared with zero.
\<close>

definition ReadS4OrS6_loadedFromSave :: "('m, 'x) Facade \<Rightarrow> string \<Rightarrow> bool" where
  "ReadS4OrS6_loadedFromSave F extension =
     (let loadedFromSave = False in
      if String_IEquals F extension ''.sv4'' \<or> String_IEquals F extension ''.sv6''
         \<or> (of_bool (String_IEquals F extension ''.sv7'') :: int) = 0
      then True else loadedFromSave)"

definition ReadS4OrS6 ::
  "('m, 'x) Facade \<Rightarrow> Constants \<Rightarrow> string \<Rightarrow> ('m, 'x) World \<Rightarrow> bool \<times> ('m, 'x) World" where
  "ReadS4OrS6 F K path w =
     (let extensionS = Path_GetExtension F path;
          extension = extensionS
      in case LoadParkFromFile F path w of
           None \<Rightarrow> (False, w)
         | Some w \<Rightarrow> (True, AfterLoadCleanup F K (ReadS4OrS6_loadedFromSave F extension) w))"

text \<open>
  \<^verbatim>\<open>ReadPark\<close>: \<open>ParkImporter_Load\<close> is \<^verbatim>\<open>ParkImporter::CreateParkFile\<close> followed by
  \<^verbatim>\<open>importer->Load(path)\<close>. An exception in the \<^verbatim>\<open>try\<close> block ends the function with
  \<^verbatim>\<open>false\<close> and whatever the calls before it have done.
\<close>

definition ReadPark ::
  "('m, 'x) Facade \<Rightarrow> Constants \<Rightarrow> string \<Rightarrow> ('m, 'x) World \<Rightarrow> bool \<times> ('m, 'x) World" where
  "ReadPark F K path w =
     (let (loadResult, x1) = ParkImporter_Load F path (ext w);
          w = w\<lparr>ext := x1\<rparr>
      in case loadResult of
           None \<Rightarrow> (False, w)
         | Some requiredObjects \<Rightarrow>
             (let (loaded, x2) = ObjectManager_LoadObjects F requiredObjects (ext w);
                  w = w\<lparr>ext := x2\<rparr>
              in if \<not> loaded then (False, w)
                 else
                   (let (imported, gs) = ParkImporter_Import F (ext w) (gameState w);
                        w = w\<lparr>gameState := gs\<rparr>
                    in if \<not> imported then (False, w)
                       else (True, AfterLoadCleanup F K True w))))"

definition LoadLandscape ::
  "('m, 'x) Facade \<Rightarrow> Constants \<Rightarrow> string \<Rightarrow> ('m, 'x) World \<Rightarrow> bool \<times> ('m, 'x) World" where
  "LoadLandscape F K path w =
     (let w = call F WindowCloseAll w;
          extension = GetFileExtensionType F path
      in case extension of
           SC6 \<Rightarrow> ReadS4OrS6 F K path w
         | SV6 \<Rightarrow> ReadS4OrS6 F K path w
         | SC4 \<Rightarrow> ReadS4OrS6 F K path w
         | SV4 \<Rightarrow> ReadS4OrS6 F K path w
         | PARK \<Rightarrow> ReadPark F K path w
         | OtherExtension \<Rightarrow> (False, w))"

subsection \<open>\<^verbatim>\<open>CheckObjectSelection\<close>\<close>

definition isTrackDesignerManager :: "Constants \<Rightarrow> ('m, 'x) World \<Rightarrow> bool" where
  "isTrackDesignerManager K w =
     (gScreenFlags w AND (SCREEN_FLAGS_TRACK_DESIGNER K OR SCREEN_FLAGS_TRACK_MANAGER K) \<noteq> 0)"

text \<open>
  The two blocks guarded by \<^verbatim>\<open>!isTrackDesignerManager\<close> return from inside; the model
  gives each block an optional result and goes on when there is none.
\<close>

definition CheckObjectSelection ::
  "('m, 'x) Facade \<Rightarrow> Constants \<Rightarrow> ('m, 'x) World \<Rightarrow> ObjectType \<times> StringId" where
  "CheckObjectSelection F K w =
     (case (if \<not> isTrackDesignerManager K w then
              (if \<not> EditorCheckObjectGroupAtLeastOneSurfaceSelected F False w then
                 Some (FootpathSurface,
                   STR_AT_LEAST_ONE_FOOTPATH_NON_QUEUE_SURFACE_OBJECT_MUST_BE_SELECTED)
               else if \<not> EditorCheckObjectGroupAtLeastOneSurfaceSelected F True w then
                 Some (FootpathSurface,
                   STR_AT_LEAST_ONE_FOOTPATH_QUEUE_SURFACE_OBJECT_MUST_BE_SELECTED)
               else if \<not> EditorCheckObjectGroupAtLeastOneSelected F FootpathRailings w then
                 Some (FootpathRailings, STR_AT_LEAST_ONE_FOOTPATH_RAILING_OBJECT_MUST_BE_SELECTED)
               else None)
            else None) of
        Some r \<Rightarrow> r
      | None \<Rightarrow>
          if \<not> EditorCheckObjectGroupAtLeastOneSelected F Ride w then
            (Ride, STR_AT_LEAST_ONE_RIDE_OBJECT_MUST_BE_SELECTED)
          else if \<not> EditorCheckObjectGroupAtLeastOneSelected F Station w then
            (Station, STR_AT_LEAST_ONE_STATION_OBJECT_MUST_BE_SELECTED)
          else if \<not> EditorCheckObjectGroupAtLeastOneSelected F TerrainSurface w then
            (TerrainSurface, STR_AT_LEAST_ONE_TERRAIN_SURFACE_OBJECT_MUST_BE_SELECTED)
          else if \<not> EditorCheckObjectGroupAtLeastOneSelected F TerrainEdge w then
            (TerrainEdge, STR_AT_LEAST_ONE_TERRAIN_EDGE_OBJECT_MUST_BE_SELECTED)
          else
            (case (if \<not> isTrackDesignerManager K w then
                     (if \<not> EditorCheckObjectGroupAtLeastOneSelected F ParkEntrance w then
                        Some (ParkEntrance, STR_PARK_ENTRANCE_TYPE_MUST_BE_SELECTED)
                      else if \<not> EditorCheckObjectGroupAtLeastOneSelected F Water w then
                        Some (Water, STR_WATER_TYPE_MUST_BE_SELECTED)
                      else None)
                   else None) of
               Some r \<Rightarrow> r
             | None \<Rightarrow> (NoneObject, STR_NONE)))"

subsection \<open>\<^verbatim>\<open>CheckPark\<close>\<close>

text \<open>
  The loop over \<^verbatim>\<open>gameState.Park.Entrances\<close>. \<open>Some r\<close>: the loop returned \<open>r\<close> from
  inside; \<open>None\<close>: it ran to its end. The tile map is threaded through both searches of
  every entrance.
\<close>

fun CheckPark_entrances ::
  "('m, 'x) Facade \<Rightarrow> CoordsXYZD list \<Rightarrow> 'm \<Rightarrow> ResultWithMessage option \<times> 'm" where
  "CheckPark_entrances F [] m = (None, m)"
| "CheckPark_entrances F (parkEntrance # rest) m =
     (let dir = (ucast (DirectionReverse F (direction parkEntrance)) :: 32 word)
      in case FootpathIsConnectedToMapEdge F parkEntrance dir 0 m of
           (FOOTPATH_SEARCH_NOT_FOUND, m1) \<Rightarrow>
             (Some (False, STR_PARK_ENTRANCE_WRONG_DIRECTION_OR_NO_PATH), m1)
         | (FOOTPATH_SEARCH_INCOMPLETE, m1) \<Rightarrow>
             (Some (False, STR_PARK_ENTRANCE_PATH_INCOMPLETE_OR_COMPLEX), m1)
         | (FOOTPATH_SEARCH_TOO_COMPLEX, m1) \<Rightarrow>
             (Some (False, STR_PARK_ENTRANCE_PATH_INCOMPLETE_OR_COMPLEX), m1)
         | (FOOTPATH_SEARCH_SUCCESS, m1) \<Rightarrow>
             CheckPark_entrances F rest
               (snd (FootpathIsConnectedToMapEdge F parkEntrance dir (push_bit 5 1) m1)))"

definition CheckPark ::
  "('m, 'x) Facade \<Rightarrow> 'm GameState_t \<Rightarrow> ResultWithMessage \<times> 'm GameState_t" where
  "CheckPark F gameState0 =
     (let (parkSize, gs) = Park_UpdateSize F gameState0
      in if parkSize = 0 then ((False, STR_PARK_MUST_OWN_SOME_LAND), gs)
         else if Entrances (Park gs) = [] then ((False, STR_NO_PARK_ENTRANCES), gs)
         else
           (let (returned, m) = CheckPark_entrances F (Entrances (Park gs)) (TileElements gs);
                gs = gs\<lparr>TileElements := m\<rparr>
            in case returned of
                 Some r \<Rightarrow> (r, gs)
               | None \<Rightarrow>
                   if PeepSpawns gs = [] then ((False, STR_PEEP_SPAWNS_NOT_SET), gs)
                   else ((True, STR_NONE), gs)))"

section \<open>The validators as the specification words them\<close>

subsection \<open>The rule table of the object-group validator\<close>

text \<open>
  The nine rules in the order of the specification's table. A rule is: whether it applies
  in the current mode, whether it passes, and the pair to report when it applies and does
  not pass. Rules 1 to 3 and 8 to 9 apply outside the track designer and track manager.
\<close>

definition CheckObjectSelection_rules ::
  "('m, 'x) Facade \<Rightarrow> Constants \<Rightarrow> ('m, 'x) World
   \<Rightarrow> (bool \<times> bool \<times> ObjectType \<times> StringId) list" where
  "CheckObjectSelection_rules F K w =
     (let editing = \<not> isTrackDesignerManager K w;
          surface = (\<lambda>queue. EditorCheckObjectGroupAtLeastOneSurfaceSelected F queue w);
          selected = (\<lambda>t. EditorCheckObjectGroupAtLeastOneSelected F t w)
      in [(editing, surface False, FootpathSurface,
             STR_AT_LEAST_ONE_FOOTPATH_NON_QUEUE_SURFACE_OBJECT_MUST_BE_SELECTED),
          (editing, surface True, FootpathSurface,
             STR_AT_LEAST_ONE_FOOTPATH_QUEUE_SURFACE_OBJECT_MUST_BE_SELECTED),
          (editing, selected FootpathRailings, FootpathRailings,
             STR_AT_LEAST_ONE_FOOTPATH_RAILING_OBJECT_MUST_BE_SELECTED),
          (True, selected Ride, Ride, STR_AT_LEAST_ONE_RIDE_OBJECT_MUST_BE_SELECTED),
          (True, selected Station, Station, STR_AT_LEAST_ONE_STATION_OBJECT_MUST_BE_SELECTED),
          (True, selected TerrainSurface, TerrainSurface,
             STR_AT_LEAST_ONE_TERRAIN_SURFACE_OBJECT_MUST_BE_SELECTED),
          (True, selected TerrainEdge, TerrainEdge,
             STR_AT_LEAST_ONE_TERRAIN_EDGE_OBJECT_MUST_BE_SELECTED),
          (editing, selected ParkEntrance, ParkEntrance, STR_PARK_ENTRANCE_TYPE_MUST_BE_SELECTED),
          (editing, selected Water, Water, STR_WATER_TYPE_MUST_BE_SELECTED)])"

text \<open>The report of the first rule that applies and does not pass; "no message" if none.\<close>

fun first_failure ::
  "(bool \<times> bool \<times> ObjectType \<times> StringId) list \<Rightarrow> ObjectType \<times> StringId" where
  "first_failure [] = (NoneObject, STR_NONE)"
| "first_failure ((applies, passes, report) # rules) =
     (if applies \<and> \<not> passes then report else first_failure rules)"

subsection \<open>The checks of the park validator\<close>

text \<open>The search from an entrance against the way it faces.\<close>

definition reverse_search ::
  "('m, 'x) Facade \<Rightarrow> CoordsXYZD \<Rightarrow> 32 word \<Rightarrow> 'm \<Rightarrow> FootpathSearchResult \<times> 'm" where
  "reverse_search F e flags m =
     FootpathIsConnectedToMapEdge F e (ucast (DirectionReverse F (direction e))) flags m"

text \<open>
  What a connected entrance does to the tile map: the plain search, then the search again
  with the unown flag (bit 5, the number 32).
\<close>

definition unown_path :: "('m, 'x) Facade \<Rightarrow> CoordsXYZD \<Rightarrow> 'm \<Rightarrow> 'm" where
  "unown_path F e m = snd (reverse_search F e 32 (snd (reverse_search F e 0 m)))"

text \<open>
  The reply of every entrance's plain search, in order, each asked on the tile map that
  the entrances before it have left.
\<close>

fun entrance_replies ::
  "('m, 'x) Facade \<Rightarrow> CoordsXYZD list \<Rightarrow> 'm \<Rightarrow> FootpathSearchResult list" where
  "entrance_replies F [] m = []"
| "entrance_replies F (e # es) m =
     fst (reverse_search F e 0 m) # entrance_replies F es (unown_path F e m)"

fun message_of_reply :: "FootpathSearchResult \<Rightarrow> StringId" where
  "message_of_reply FOOTPATH_SEARCH_NOT_FOUND = STR_PARK_ENTRANCE_WRONG_DIRECTION_OR_NO_PATH"
| "message_of_reply FOOTPATH_SEARCH_INCOMPLETE = STR_PARK_ENTRANCE_PATH_INCOMPLETE_OR_COMPLEX"
| "message_of_reply FOOTPATH_SEARCH_TOO_COMPLEX = STR_PARK_ENTRANCE_PATH_INCOMPLETE_OR_COMPLEX"
| "message_of_reply FOOTPATH_SEARCH_SUCCESS = STR_NONE"

text \<open>
  The verdict by the specification's five steps: ownership, entrances, the first entrance
  whose search is not a success, peep spawns, and success.
\<close>

definition CheckPark_verdict :: "('m, 'x) Facade \<Rightarrow> 'm GameState_t \<Rightarrow> ResultWithMessage" where
  "CheckPark_verdict F gs0 =
     (let size = fst (Park_UpdateSize F gs0);
          gs = snd (Park_UpdateSize F gs0);
          replies = entrance_replies F (Entrances (Park gs)) (TileElements gs)
      in if size = 0 then (False, STR_PARK_MUST_OWN_SOME_LAND)
         else if Entrances (Park gs) = [] then (False, STR_NO_PARK_ENTRANCES)
         else case find (\<lambda>r. r \<noteq> FOOTPATH_SEARCH_SUCCESS) replies of
                Some r \<Rightarrow> (False, message_of_reply r)
              | None \<Rightarrow>
                  if PeepSpawns gs = [] then (False, STR_PEEP_SPAWNS_NOT_SET)
                  else (True, STR_NONE))"

text \<open>
  The tile map after the entrances that were examined: with \<open>n\<close> the number of entrances
  before the first whose search is not a success, the first \<open>n\<close> entrances have each had
  both searches, and entrance \<open>n\<close>, if there is one, its plain search.
\<close>

definition examined_map :: "('m, 'x) Facade \<Rightarrow> CoordsXYZD list \<Rightarrow> 'm \<Rightarrow> 'm" where
  "examined_map F es m =
     (let n = length (takeWhile (\<lambda>r. r = FOOTPATH_SEARCH_SUCCESS) (entrance_replies F es m));
          m' = fold (unown_path F) (take n es) m
      in if n < length es then snd (reverse_search F (es ! n) 0 m') else m')"

section \<open>A small instance of the constants and collaborators\<close>

text \<open>
  To run the definitions on concrete inputs, this section fixes one choice of \<open>K\<close> and
  \<open>F\<close>: the tile map is the list of owned tiles, \<open>ext\<close> is the log of the calls made on
  it, a window is known by its place in that log. No general theorem depends on the
  numbers. \<open>EnumValue\<close> and \<open>ObjectTypeCount\<close> follow the declaration of the enumeration:
  the kinds count from zero, \<^verbatim>\<open>Count\<close> closes them, and \<^verbatim>\<open>None\<close> is the reserved value
  255, past the end of every array of \<^verbatim>\<open>Count\<close> elements. Assertions are compiled in.
\<close>

definition example_constants :: Constants where
  "example_constants =
     \<lparr>OBJECT_ENTRY_INDEX_NULL = 65535,
      EnumValue = (\<lambda>t. case t of Ride \<Rightarrow> 0 | Paths \<Rightarrow> 5 | ParkEntrance \<Rightarrow> 8 | Water \<Rightarrow> 9
                    | TerrainSurface \<Rightarrow> 11 | TerrainEdge \<Rightarrow> 12 | Station \<Rightarrow> 13
                    | FootpathSurface \<Rightarrow> 15 | FootpathRailings \<Rightarrow> 16 | NoneObject \<Rightarrow> 255),
      ObjectTypeCount = 18,
      object_entry_group_counts = (\<lambda>_. 255),
      NDEBUG = False,
      vector_max_size = 9223372036854775807,
      SCREEN_FLAGS_SCENARIO_EDITOR = 2,
      SCREEN_FLAGS_TRACK_DESIGNER = 4,
      SCREEN_FLAGS_TRACK_MANAGER = 8,
      PARK_FLAGS_SHOW_REAL_GUEST_NAMES = 32,
      PARK_FLAGS_NO_MONEY = 2048,
      PARK_FLAGS_PARK_FREE_ENTRY = 8192,
      PARK_FLAGS_SPRITES_INITIALISED = 262144,
      SCENARIO_CATEGORY_OTHER = 4,
      DEFAULT_MAP_SIZE = \<lparr>tile_x = 150, tile_y = 150\<rparr>,
      COORDS_XY_STEP = 32,
      ToCoordsXYZ = (\<lambda>(a, b, c). (32 * a, 32 * b, 8 * c)),
      GAME_COMMAND_FLAG_NO_SPEND = 32,
      MODAL_RESULT_OK = 1,
      GBP = (\<lambda>n. 10 * n),
      MAX_ENTRANCE_FEE = 9990,
      MaxBankLoanInterestRate = 255,
      MinimumRequiredObjects = [''rct2.terrain_surface.grass'', ''rct2.terrain_edge.rock'']\<rparr>"

definition ascii_tolower :: "char \<Rightarrow> char" where
  "ascii_tolower c =
     (case map_of (zip ''ABCDEFGHIJKLMNOPQRSTUVWXYZ'' ''abcdefghijklmnopqrstuvwxyz'') c of
        Some l \<Rightarrow> l
      | None \<Rightarrow> c)"

text \<open>Equality of strings up to the case of ASCII letters.\<close>

definition example_IEquals :: "string \<Rightarrow> string \<Rightarrow> bool" where
  "example_IEquals a b = (map ascii_tolower a = map ascii_tolower b)"

text \<open>The text from the last dot of a path on.\<close>

definition example_GetExtension :: "string \<Rightarrow> string" where
  "example_GetExtension p =
     (if CHR ''.'' \<in> set p then CHR ''.'' # rev (takeWhile (\<lambda>c. c \<noteq> CHR ''.'') (rev p))
      else [])"

definition example_GetFileExtensionType :: "string \<Rightarrow> FileExtension" where
  "example_GetFileExtensionType p =
     (let e = example_GetExtension p in
      if example_IEquals e ''.sc6'' then SC6
      else if example_IEquals e ''.sv6'' then SV6
      else if example_IEquals e ''.sc4'' then SC4
      else if example_IEquals e ''.sv4'' then SV4
      else if example_IEquals e ''.park'' then PARK
      else OtherExtension)"

text \<open>
  A footpath search that reads its reply off the entrance's height and, asked to unown
  (bit 5 of the flags), takes the entrance's tile out of the owned tiles.
\<close>

definition example_search ::
  "CoordsXYZD \<Rightarrow> 32 word \<Rightarrow> 32 word \<Rightarrow> (int \<times> int) list
   \<Rightarrow> FootpathSearchResult \<times> (int \<times> int) list" where
  "example_search e dir flags owned =
     (let reply = (if coord_z e = 0 then FOOTPATH_SEARCH_SUCCESS
                   else if coord_z e = 1 then FOOTPATH_SEARCH_NOT_FOUND
                   else if coord_z e = 2 then FOOTPATH_SEARCH_INCOMPLETE
                   else FOOTPATH_SEARCH_TOO_COMPLEX)
      in if reply = FOOTPATH_SEARCH_SUCCESS \<and> bit flags 5
         then (reply, removeAll (coord_x e, coord_y e) owned)
         else (reply, owned))"

type_synonym example_ext = "(EnvCall + WindowClass) list"

type_synonym example_world = "((int \<times> int) list, example_ext) World"

text \<open>A saved park: two rides, guests in the park, finances beyond the editor's ranges.\<close>

definition example_park :: "(int \<times> int) list GameState_t" where
  "example_park =
     \<lparr>EditorStep = Invalid,
      Park = \<lparr>Flags = 0, EntranceFee = 0,
              Entrances = [\<lparr>coord_x = 3, coord_y = 0, coord_z = 0, direction = 1\<rparr>]\<rparr>,
      ScenarioCategory = 0,
      ScenarioName = ''Forest Frontiers'',
      MapSize = \<lparr>tile_x = 150, tile_y = 150\<rparr>,
      NumGuestsInPark = 120,
      NumGuestsHeadingForPark = 7,
      NumGuestsInParkLastWeek = 100,
      GuestChangeModifier = 3,
      GuestInitialCash = 5,
      InitialCash = 250000,
      BankLoan = 100000000,
      MaxBankLoan = - 1,
      BankLoanInterestRate = 2,
      Climate = 1,
      PeepSpawns = [],
      SavedView = (0, 0),
      SavedViewZoom = 0,
      SavedViewRotation = 0,
      Cash = 77,
      ParkSize = 0,
      MapRides = [0, 1],
      RideRegistry = [0, 1],
      BannerRideLinks = [Some 0],
      Entities = [\<lparr>EntityKind = Guest, EntityName = ''Ann'', EntityPatrolArea = []\<rparr>],
      ConsolidatedPatrolAreas = [],
      NewsItems = [STR_NONE],
      TileElements = [(3, 0), (3, 1), (4, 1)]\<rparr>"

definition example_facade :: "((int \<times> int) list, example_ext) Facade" where
  "example_facade =
     \<lparr>env_call = (\<lambda>c x. x @ [Inl c]),
      ContextOpenWindow = (\<lambda>c x. (length x, x @ [Inr c])),
      LanguageGetString = (\<lambda>i x. if i = STR_MY_NEW_SCENARIO then ''My new scenario'' else []),
      gameStateInitAll = (\<lambda>size gs. gs\<lparr>MapSize := size, EditorStep := Invalid\<rparr>),
      ScenarioReset = (\<lambda>gs. gs),
      GameActions_Execute = (\<lambda>a gs. gs),
      Park_UpdateSize =
        (\<lambda>gs. (of_nat (length (TileElements gs)),
               gs\<lparr>ParkSize := of_nat (length (TileElements gs))\<rparr>)),
      FootpathIsConnectedToMapEdge = example_search,
      DirectionReverse = (\<lambda>d. d XOR 2),
      ClimateReset = (\<lambda>c. 0),
      EditorCheckObjectGroupAtLeastOneSurfaceSelected = (\<lambda>queue w. True),
      EditorCheckObjectGroupAtLeastOneSelected = (\<lambda>t w. True),
      GetFileExtensionType = example_GetFileExtensionType,
      Path_GetExtension = example_GetExtension,
      String_IEquals = example_IEquals,
      LoadParkFromFile =
        (\<lambda>p w. if p = ''missing.sv6'' then None else Some (w\<lparr>gameState := example_park\<rparr>)),
      ParkImporter_Load = (\<lambda>p x. (Some [], x)),
      ObjectManager_LoadObjects = (\<lambda>objs x. (True, x)),
      ParkImporter_Import = (\<lambda>x gs. (True, example_park))\<rparr>"

definition example_world :: example_world where
  "example_world =
     \<lparr>gameState = example_park\<lparr>ScenarioName := [], MapRides := []\<rparr>, gScreenFlags = 0,
      gScreenAge = 9,
      gWindowUpdateTicks = 9, ext = []\<rparr>"

text \<open>The saved park with three entrances: the second has no path, the others are connected.\<close>

definition example_entrances :: "(int \<times> int) list GameState_t" where
  "example_entrances =
     example_park\<lparr>Park := \<lparr>Flags = 0, EntranceFee = 0,
       Entrances = [\<lparr>coord_x = 3, coord_y = 0, coord_z = 0, direction = 1\<rparr>,
                    \<lparr>coord_x = 3, coord_y = 1, coord_z = 1, direction = 1\<rparr>,
                    \<lparr>coord_x = 4, coord_y = 1, coord_z = 0, direction = 1\<rparr>]\<rparr>\<rparr>"

text \<open>A store whose vector for rides holds three bytes; every other vector is empty.\<close>

definition example_store :: FlagStore where
  "example_store = (fresh_store example_constants)[0 := [1, 2, 240]]"

section \<open>Unfolding the small instance\<close>

lemmas example_defs = example_facade_def example_constants_def example_park_def
  example_world_def example_search_def

lemmas example_string_defs = example_GetFileExtensionType_def example_GetExtension_def
  example_IEquals_def ascii_tolower_def

section \<open>Properties of the flag store\<close>

lemma byte_or_flags:
  "(ucast ((ucast (v :: 8 word) :: 32 word) OR flags) :: 8 word) = v OR ucast flags"
  by (rule bit_word_eqI) (auto simp: bit_simps)

lemma byte_and_not_flags:
  "(ucast ((ucast (v :: 8 word) :: 32 word) AND NOT flags) :: 8 word) = v AND NOT (ucast flags)"
  by (rule bit_word_eqI) (auto simp: bit_simps)

lemma or_then_and_not: "((v :: 8 word) OR m) AND NOT m = v AND NOT m"
  by (rule bit_word_eqI) (auto simp: bit_simps)

lemma and_not_bits:
  "bit ((v :: 8 word) AND NOT (ucast (f :: 32 word))) n = (bit v n \<and> \<not> bit f n)"
  by (auto simp: bit_simps dest: bit_imp_le_length)

lemma unat_succ_below:
  "unat (i :: 64 word) < unat (m :: 64 word) \<Longrightarrow> unat (i + 1) = Suc (unat i)"
proof -
  assume below: "unat i < unat m"
  have "unat m < 2 ^ 64" using unsigned_less [of m, where 'a = nat] by simp
  with below have "unat i + unat (1 :: 64 word) < 2 ^ LENGTH(64)" by simp
  then have "unat (i + 1) = unat i + unat (1 :: 64 word)"
    by (simp only: unat_add_lem [THEN iffD1])
  then show ?thesis by simp
qed

text \<open>Growing to hold an index that the allocator grants.\<close>

lemma resize_grown:
  assumes "unat (i :: 64 word) < unat (vector_max_size K)"
  shows "(if length xs \<le> unat i then resize K (unat (i + 1)) xs else Inr xs)
    = Inr (grown (unat i) xs)"
proof -
  from assms have next_index: "unat (i + 1) = Suc (unat i)"
    by (rule unat_succ_below)
  with assms show ?thesis
    by (auto simp: resize_def grown_def)
qed

lemma length_grown: "length (grown n xs) = max (length xs) (Suc n)"
  by (simp add: grown_def)

lemma slot_grown: "slot (grown n xs) j = slot xs j"
  by (auto simp: grown_def slot_def nth_append)

lemma nth_grown: "j < length (grown n xs) \<Longrightarrow> grown n xs ! j = slot xs j"
  using slot_grown [of n xs j] by (simp add: slot_def)

lemma Get_in_bounds:
  "EnumValue K k < length s \<Longrightarrow>
   GetSelectedObjectFlags K k i s = Inr (slot (s ! EnumValue K k) (unat i), s)"
  by (simp add: GetSelectedObjectFlags_def slot_def Let_def)

lemma Clear_in_bounds:
  "EnumValue K k < length s \<Longrightarrow> unat i < unat (vector_max_size K) \<Longrightarrow>
   ClearSelectedObject K k i f s =
     Inr (s[EnumValue K k := (grown (unat i) (s ! EnumValue K k))
        [unat i := slot (s ! EnumValue K k) (unat i) AND NOT (ucast f)]])"
  by (simp add: ClearSelectedObject_def Let_def resize_grown length_grown
      byte_and_not_flags nth_grown)

lemma Set_in_bounds:
  "EnumValue K k < length s \<Longrightarrow> unat i < unat (vector_max_size K) \<Longrightarrow>
   NDEBUG K \<or> SetSelectedObject_assertion K k \<Longrightarrow> i \<noteq> OBJECT_ENTRY_INDEX_NULL K \<Longrightarrow>
   SetSelectedObject K k i f s =
     Inr (s[EnumValue K k := (grown (unat i) (s ! EnumValue K k))
        [unat i := slot (s ! EnumValue K k) (unat i) OR ucast f]])"
  by (auto simp: SetSelectedObject_def Let_def resize_grown length_grown
      byte_or_flags nth_grown)

lemma Set_null: "SetSelectedObject K k (OBJECT_ENTRY_INDEX_NULL K) f s = Inr s"
  by (simp add: SetSelectedObject_def)

lemma slot_written:
  "slot ((grown n xs)[n := v]) n = v"
  by (simp add: slot_def length_grown less_max_iff_disj)

text \<open>
  C6. For every kind inside the array that passes the assertion of \<open>SetSelectedObject\<close>
  (where assertions are compiled in), every index that the allocator grants and every
  mask: \<open>SetSelectedObject\<close> and then \<open>ClearSelectedObject\<close> return normally, and
  \<open>GetSelectedObjectFlags\<close> then returns the byte it returned before the set, restricted
  to the bits that are not in the mask.
\<close>

theorem Set_then_Clear_restricts:
  assumes "EnumValue K k < length s"
    and "NDEBUG K \<or> SetSelectedObject_assertion K k"
    and "unat i < unat (vector_max_size K)"
  shows "\<exists>s1 s2 v. SetSelectedObject K k i f s = Inr s1
      \<and> ClearSelectedObject K k i f s1 = Inr s2
      \<and> GetSelectedObjectFlags K k i s = Inr (v, s)
      \<and> GetSelectedObjectFlags K k i s2 = Inr (v AND NOT (ucast f), s2)
      \<and> (\<forall>n. bit (v AND NOT (ucast f)) n = (bit v n \<and> \<not> bit f n))"
proof -
  let ?e = "EnumValue K k"
  let ?v = "slot (s ! ?e) (unat i)"
  obtain s1 where set: "SetSelectedObject K k i f s = Inr s1"
    and len1: "length s1 = length s"
    and read1: "slot (s1 ! ?e) (unat i) AND NOT (ucast f) = ?v AND NOT (ucast f)"
  proof (cases "i = OBJECT_ENTRY_INDEX_NULL K")
    case True
    then show ?thesis using that [of s] by (simp add: Set_null)
  next
    case False
    with assms show ?thesis
      using that [of "s[?e := (grown (unat i) (s ! ?e))[unat i := ?v OR ucast f]]"]
      by (simp add: Set_in_bounds slot_written or_then_and_not)
  qed
  from assms len1 have in1: "?e < length s1" by simp
  let ?s2 = "s1[?e := (grown (unat i) (s1 ! ?e))
      [unat i := slot (s1 ! ?e) (unat i) AND NOT (ucast f)]]"
  have clear: "ClearSelectedObject K k i f s1 = Inr ?s2"
    using in1 assms(3) by (rule Clear_in_bounds)
  have get0: "GetSelectedObjectFlags K k i s = Inr (?v, s)"
    using assms(1) by (rule Get_in_bounds)
  have "GetSelectedObjectFlags K k i ?s2 = Inr (slot (?s2 ! ?e) (unat i), ?s2)"
    using in1 by (simp add: Get_in_bounds)
  with in1 read1 have get2: "GetSelectedObjectFlags K k i ?s2 = Inr (?v AND NOT (ucast f), ?s2)"
    by (simp add: slot_written)
  from set clear get0 get2 show ?thesis
    by (simp add: and_not_bits)
qed

lemma example_store_Ride: "example_store ! EnumValue example_constants Ride = [1, 2, 240]"
  and example_store_length: "length example_store = 18"
  by (simp_all add: example_store_def fresh_store_def example_constants_def)

theorem Set_then_Clear_restricts_witness:
  "EnumValue example_constants Ride < length example_store
   \<and> SetSelectedObject_assertion example_constants Ride
   \<and> unat (2 :: 64 word) < unat (vector_max_size example_constants)
   \<and> GetSelectedObjectFlags example_constants Ride 2 example_store = Inr (240, example_store)
   \<and> (\<exists>s1 s2. SetSelectedObject example_constants Ride 2 48 example_store = Inr s1
        \<and> ClearSelectedObject example_constants Ride 2 48 s1 = Inr s2
        \<and> GetSelectedObjectFlags example_constants Ride 2 s2 = Inr (192, s2))"
proof -
  have inside: "EnumValue example_constants Ride < length example_store"
    by (simp add: example_store_length) (simp add: example_constants_def)
  have asserted: "SetSelectedObject_assertion example_constants Ride"
    by (simp add: SetSelectedObject_assertion_def example_constants_def)
  have granted: "unat (2 :: 64 word) < unat (vector_max_size example_constants)"
    by (simp add: example_constants_def)
  have before: "GetSelectedObjectFlags example_constants Ride 2 example_store
      = Inr (240, example_store)"
    by (simp add: Get_in_bounds [OF inside] example_store_Ride slot_def)
  from Set_then_Clear_restricts [OF inside disjI2 [OF asserted] granted, of 48] before
  have "\<exists>s1 s2. SetSelectedObject example_constants Ride 2 48 example_store = Inr s1
        \<and> ClearSelectedObject example_constants Ride 2 48 s1 = Inr s2
        \<and> GetSelectedObjectFlags example_constants Ride 2 s2 = Inr (192, s2)"
    by auto
  with inside asserted granted before show ?thesis by simp
qed

text \<open>
  Outside these bounds \<open>SetSelectedObject\<close> does not return a store: for
  \<^verbatim>\<open>ObjectType::None\<close> the assertion fails, or, with assertions compiled out, the array is
  indexed past its end; at the largest index \<^verbatim>\<open>index + 1\<close> wraps to zero, the vector is
  emptied and the write lands outside it.
\<close>

theorem Set_then_Clear_faults:
  "SetSelectedObject example_constants NoneObject 0 1 (fresh_store example_constants)
     = Inl AssertionFailed
   \<and> SetSelectedObject (example_constants\<lparr>NDEBUG := True\<rparr>) NoneObject 0 1
       (fresh_store example_constants) = Inl OutOfBounds
   \<and> SetSelectedObject example_constants Ride 18446744073709551615 1
       (fresh_store example_constants) = Inl OutOfBounds"
  by (simp add: SetSelectedObject_def SetSelectedObject_assertion_def Let_def resize_def
      fresh_store_def example_constants_def)

text \<open>
  C7. For every kind inside the array and every index: \<open>GetSelectedObjectFlags\<close> on a
  store whose vector for the kind is shorter than the index plus one returns 0 and leaves
  the store as it was: nothing is grown. In particular on the fresh store.
\<close>

theorem Get_beyond_end_is_zero:
  "(EnumValue K k < length s \<and> length (s ! EnumValue K k) < unat i + 1 \<longrightarrow>
      GetSelectedObjectFlags K k i s = Inr (0, s))
   \<and> (EnumValue K k < ObjectTypeCount K \<longrightarrow>
      GetSelectedObjectFlags K k i (fresh_store K) = Inr (0, fresh_store K))"
  by (simp add: GetSelectedObjectFlags_def fresh_store_def)

theorem Get_beyond_end_is_zero_witness:
  "EnumValue example_constants Ride < length example_store
   \<and> length (example_store ! EnumValue example_constants Ride) < unat (3 :: 64 word) + 1
   \<and> GetSelectedObjectFlags example_constants Ride 3 example_store = Inr (0, example_store)
   \<and> EnumValue example_constants Water < ObjectTypeCount example_constants
   \<and> GetSelectedObjectFlags example_constants Water 7 (fresh_store example_constants)
       = Inr (0, fresh_store example_constants)"
proof -
  have inside: "EnumValue example_constants Ride < length example_store"
    by (simp add: example_store_length) (simp add: example_constants_def)
  have short: "length (example_store ! EnumValue example_constants Ride)
      < unat (3 :: 64 word) + 1"
    by (simp add: example_store_Ride)
  have water: "EnumValue example_constants Water < ObjectTypeCount example_constants"
    by (simp add: example_constants_def)
  from inside short water
    Get_beyond_end_is_zero [of example_constants Ride example_store 3]
    Get_beyond_end_is_zero [of example_constants Water example_store 7]
  show ?thesis by simp
qed

text \<open>
  For \<^verbatim>\<open>ObjectType::None\<close>, whose value lies past the end of the array, the read is out
  of bounds.
\<close>

theorem Get_outside_array_faults:
  "GetSelectedObjectFlags example_constants NoneObject 0 (fresh_store example_constants)
     = Inl OutOfBounds"
  by (simp add: GetSelectedObjectFlags_def fresh_store_def example_constants_def)

text \<open>
  C9. At the null index \<open>SetSelectedObject\<close> returns the store as it is. For every kind
  inside the array, when the allocator grants a vector that holds the null index \<open>n\<close>,
  \<open>ClearSelectedObject\<close> at \<open>n\<close> returns normally: the vector for the kind has at least
  \<open>n + 1\<close> bytes (exactly \<open>n + 1\<close> when it was not longer before, never fewer than
  before), every byte it adds is zero, the byte at \<open>n\<close> is what a read saw there before
  with the mask's bits cleared, every other byte and every other vector is as before.
\<close>

theorem Clear_at_null_index_grows:
  assumes "EnumValue K k < length s"
    and "unat (OBJECT_ENTRY_INDEX_NULL K) < unat (vector_max_size K)"
  shows "SetSelectedObject K k (OBJECT_ENTRY_INDEX_NULL K) f s = Inr s
    \<and> (\<exists>s'. ClearSelectedObject K k (OBJECT_ENTRY_INDEX_NULL K) f s = Inr s'
         \<and> length s' = length s
         \<and> length (s' ! EnumValue K k)
             = max (length (s ! EnumValue K k)) (unat (OBJECT_ENTRY_INDEX_NULL K) + 1)
         \<and> (length (s ! EnumValue K k) \<le> unat (OBJECT_ENTRY_INDEX_NULL K) \<longrightarrow>
              length (s' ! EnumValue K k) = unat (OBJECT_ENTRY_INDEX_NULL K) + 1)
         \<and> (\<forall>j < length (s' ! EnumValue K k).
              s' ! EnumValue K k ! j
                = (if j = unat (OBJECT_ENTRY_INDEX_NULL K)
                   then slot (s ! EnumValue K k) (unat (OBJECT_ENTRY_INDEX_NULL K))
                          AND NOT (ucast f)
                   else slot (s ! EnumValue K k) j))
         \<and> (\<forall>e < length s. e \<noteq> EnumValue K k \<longrightarrow> s' ! e = s ! e))"
proof -
  let ?e = "EnumValue K k"
  let ?n = "unat (OBJECT_ENTRY_INDEX_NULL K)"
  let ?xs = "(grown ?n (s ! ?e))[?n := slot (s ! ?e) ?n AND NOT (ucast f)]"
  have clear: "ClearSelectedObject K k (OBJECT_ENTRY_INDEX_NULL K) f s = Inr (s[?e := ?xs])"
    using assms by (rule Clear_in_bounds)
  have len: "length ?xs = max (length (s ! ?e)) (?n + 1)"
    by (simp add: length_grown)
  have bytes: "?xs ! j = (if j = ?n then slot (s ! ?e) ?n AND NOT (ucast f)
      else slot (s ! ?e) j)" if "j < length ?xs" for j
    using that by (simp add: nth_list_update nth_grown)
  have others: "s[?e := ?xs] ! e = s ! e" if "e \<noteq> ?e" for e
    using that by simp
  from assms(1) have here: "s[?e := ?xs] ! ?e = ?xs" by simp
  show ?thesis
    unfolding clear using len bytes others here
    by (simp add: Set_null)
qed

theorem Clear_at_null_index_grows_witness:
  "EnumValue (example_constants\<lparr>OBJECT_ENTRY_INDEX_NULL := 3\<rparr>) Ride < length example_store
   \<and> unat (OBJECT_ENTRY_INDEX_NULL (example_constants\<lparr>OBJECT_ENTRY_INDEX_NULL := 3\<rparr>))
       < unat (vector_max_size (example_constants\<lparr>OBJECT_ENTRY_INDEX_NULL := 3\<rparr>))
   \<and> SetSelectedObject (example_constants\<lparr>OBJECT_ENTRY_INDEX_NULL := 3\<rparr>) Ride 3 1
       example_store = Inr example_store
   \<and> ClearSelectedObject (example_constants\<lparr>OBJECT_ENTRY_INDEX_NULL := 3\<rparr>) Ride 3 2
       example_store = Inr (example_store[0 := [1, 2, 240, 0]])
   \<and> ClearSelectedObject (example_constants\<lparr>OBJECT_ENTRY_INDEX_NULL := 3\<rparr>) Ride 2 48
       example_store = Inr (example_store[0 := [1, 2, 192]])"
proof -
  let ?K = "example_constants\<lparr>OBJECT_ENTRY_INDEX_NULL := 3\<rparr>"
  have inside: "EnumValue ?K Ride < length example_store"
    by (simp add: example_store_length) (simp add: example_constants_def)
  have granted: "unat (OBJECT_ENTRY_INDEX_NULL ?K) < unat (vector_max_size ?K)"
    by (simp add: example_constants_def)
  have e0: "EnumValue ?K Ride = 0"
    by (simp add: example_constants_def)
  have ride: "example_store ! 0 = [1, 2, 240]"
    by (simp add: example_store_def fresh_store_def example_constants_def)
  have u3: "unat (3 :: 64 word) = 3" and u2: "unat (2 :: 64 word) = 2"
    by simp_all
  have below3: "unat (3 :: 64 word) < unat (vector_max_size ?K)"
    and below2: "unat (2 :: 64 word) < unat (vector_max_size ?K)"
    by (simp_all add: example_constants_def)
  have new3: "(grown 3 [1, 2, 240])[3 := slot [1, 2, 240] 3 AND NOT (ucast (2 :: 32 word))]
      = [1, 2, 240, 0]"
    by code_simp
  have new2: "(grown 2 [1, 2, 240])[2 := slot [1, 2, 240] 2 AND NOT (ucast (48 :: 32 word))]
      = [1, 2, 192]"
    by code_simp
  have at3: "ClearSelectedObject ?K Ride 3 2 example_store
      = Inr (example_store[0 := [1, 2, 240, 0]])"
    using Clear_in_bounds [OF inside below3, of 2]
    by (simp only: e0 ride u3 new3)
  have at2: "ClearSelectedObject ?K Ride 2 48 example_store
      = Inr (example_store[0 := [1, 2, 192]])"
    using Clear_in_bounds [OF inside below2, of 48]
    by (simp only: e0 ride u2 new2)
  from inside granted at3 at2 Clear_at_null_index_grows [OF inside granted, of 1]
  show ?thesis by simp
qed

text \<open>
  For \<^verbatim>\<open>ObjectType::None\<close> the array is indexed past its end and no vector is grown.
\<close>

theorem Clear_outside_array_faults:
  "ClearSelectedObject example_constants NoneObject
     (OBJECT_ENTRY_INDEX_NULL example_constants) 1 (fresh_store example_constants)
     = Inl OutOfBounds"
  by (simp add: ClearSelectedObject_def fresh_store_def example_constants_def)


section \<open>Properties of the validators\<close>

text \<open>
  C2. \<open>CheckObjectSelection\<close> returns the report of the first rule, in the order of the
  specification's table, that applies in the current mode and does not pass, and
  \<open>(NoneObject, STR_NONE)\<close> when there is none; a later failing rule is never reported
  before an earlier one.
\<close>

theorem CheckObjectSelection_first_failure:
  "CheckObjectSelection F K w = first_failure (CheckObjectSelection_rules F K w)"
  by (simp add: CheckObjectSelection_def CheckObjectSelection_rules_def Let_def)

lemma CheckPark_entrances_Cons:
  "CheckPark_entrances F (e # es) m =
     (case fst (reverse_search F e 0 m) of
        FOOTPATH_SEARCH_SUCCESS \<Rightarrow> CheckPark_entrances F es (unown_path F e m)
      | r \<Rightarrow> (Some (False, message_of_reply r), snd (reverse_search F e 0 m)))"
  by (simp add: Let_def reverse_search_def unown_path_def split_beta
      split: FootpathSearchResult.splits)

lemma CheckPark_entrances_returned:
  "fst (CheckPark_entrances F es m)
     = (case find (\<lambda>r. r \<noteq> FOOTPATH_SEARCH_SUCCESS) (entrance_replies F es m) of
          Some r \<Rightarrow> Some (False, message_of_reply r) | None \<Rightarrow> None)"
proof (induction es arbitrary: m)
  case Nil
  show ?case by simp
next
  case (Cons e es)
  show ?case
    using Cons.IH [of "unown_path F e m"]
    by (cases "fst (reverse_search F e 0 m)")
      (simp_all add: CheckPark_entrances_Cons del: CheckPark_entrances.simps)
qed

lemma CheckPark_entrances_map:
  "snd (CheckPark_entrances F es m) = examined_map F es m"
proof (induction es arbitrary: m)
  case Nil
  show ?case by (simp add: examined_map_def)
next
  case (Cons e es)
  show ?case
    using Cons.IH [of "unown_path F e m"]
    by (cases "fst (reverse_search F e 0 m)")
      (simp_all add: CheckPark_entrances_Cons examined_map_def Let_def
        del: CheckPark_entrances.simps)
qed

lemma find_failure_None:
  "(find (\<lambda>r. r \<noteq> a) rs = None) = list_all (\<lambda>r. r = a) rs"
  by (induction rs) auto

lemma CheckPark_result: "fst (CheckPark F gs) = CheckPark_verdict F gs"
  by (simp add: CheckPark_def CheckPark_verdict_def Let_def split_beta
      CheckPark_entrances_returned split: option.splits)

lemma CheckPark_state:
  "snd (CheckPark F gs) =
     (if fst (Park_UpdateSize F gs) = 0 then snd (Park_UpdateSize F gs)
      else (snd (Park_UpdateSize F gs))
        \<lparr>TileElements := examined_map F (Entrances (Park (snd (Park_UpdateSize F gs))))
            (TileElements (snd (Park_UpdateSize F gs)))\<rparr>)"
  by (simp add: CheckPark_def Let_def split_beta CheckPark_entrances_map examined_map_def
      split: option.splits)

text \<open>
  C3. The result of \<open>CheckPark\<close> is the verdict of the five steps. It is
  \<open>(True, STR_NONE)\<close> exactly when the recomputed park size is not zero, there is an
  entrance, the search of every entrance is a success, and there is a peep spawn.
\<close>

theorem CheckPark_verdict_iff:
  "fst (CheckPark F gs) = CheckPark_verdict F gs
   \<and> (fst (CheckPark F gs) = (True, STR_NONE)) =
       (fst (Park_UpdateSize F gs) \<noteq> 0
        \<and> Entrances (Park (snd (Park_UpdateSize F gs))) \<noteq> []
        \<and> list_all (\<lambda>r. r = FOOTPATH_SEARCH_SUCCESS)
            (entrance_replies F (Entrances (Park (snd (Park_UpdateSize F gs))))
               (TileElements (snd (Park_UpdateSize F gs))))
        \<and> PeepSpawns (snd (Park_UpdateSize F gs)) \<noteq> [])
   \<and> fst (fst (CheckPark F gs)) = (fst (CheckPark F gs) = (True, STR_NONE))"
proof -
  let ?gs = "snd (Park_UpdateSize F gs)"
  let ?replies = "entrance_replies F (Entrances (Park ?gs)) (TileElements ?gs)"
  have ok: "(CheckPark_verdict F gs = (True, STR_NONE)) =
       (fst (Park_UpdateSize F gs) \<noteq> 0 \<and> Entrances (Park ?gs) \<noteq> []
        \<and> list_all (\<lambda>r. r = FOOTPATH_SEARCH_SUCCESS) ?replies \<and> PeepSpawns ?gs \<noteq> [])"
    by (simp add: CheckPark_verdict_def Let_def find_failure_None [symmetric]
        split: option.splits)
  have flag: "fst (CheckPark_verdict F gs) = (CheckPark_verdict F gs = (True, STR_NONE))"
    by (simp add: CheckPark_verdict_def Let_def split: option.splits)
  from ok flag show ?thesis by (simp add: CheckPark_result)
qed

text \<open>
  C10. When \<open>CheckPark\<close> fails at a check after the first, the state it leaves is the
  state after the park-size update, with the tile map that the examined entrances have
  left: every connected entrance before the failing one has had its path unowned.
\<close>

theorem CheckPark_failure_keeps_effects:
  assumes "fst (CheckPark F gs) = (False, msg)"
    and "msg \<noteq> STR_PARK_MUST_OWN_SOME_LAND"
  shows "snd (CheckPark F gs) =
     (snd (Park_UpdateSize F gs))
       \<lparr>TileElements := examined_map F (Entrances (Park (snd (Park_UpdateSize F gs))))
           (TileElements (snd (Park_UpdateSize F gs)))\<rparr>"
proof -
  have "fst (Park_UpdateSize F gs) \<noteq> 0"
    using assms by (auto simp: CheckPark_result CheckPark_verdict_def Let_def)
  then show ?thesis by (simp add: CheckPark_state)
qed

theorem CheckPark_failure_keeps_effects_witness:
  "fst (CheckPark example_facade example_entrances)
     = (False, STR_PARK_ENTRANCE_WRONG_DIRECTION_OR_NO_PATH)
   \<and> STR_PARK_ENTRANCE_WRONG_DIRECTION_OR_NO_PATH \<noteq> STR_PARK_MUST_OWN_SOME_LAND
   \<and> TileElements example_entrances = [(3, 0), (3, 1), (4, 1)]
   \<and> ParkSize example_entrances = 0
   \<and> snd (CheckPark example_facade example_entrances)
       = example_entrances\<lparr>ParkSize := 3, TileElements := [(3, 1), (4, 1)]\<rparr>"
proof -
  have failed: "fst (CheckPark example_facade example_entrances)
      = (False, STR_PARK_ENTRANCE_WRONG_DIRECTION_OR_NO_PATH)"
    by (simp add: CheckPark_def Let_def example_defs example_entrances_def)
  have later: "STR_PARK_ENTRANCE_WRONG_DIRECTION_OR_NO_PATH \<noteq> STR_PARK_MUST_OWN_SOME_LAND"
    by simp
  show ?thesis
    using failed CheckPark_failure_keeps_effects [OF failed later]
    by (simp add: examined_map_def unown_path_def reverse_search_def Let_def example_defs
        example_entrances_def)
qed

section \<open>Properties of the controller\<close>

lemma gameState_call: "gameState (call F c w) = gameState w"
  by (simp add: call_def)

lemma gameState_ObjectListLoad: "gameState (ObjectListLoad F K w) = gameState w"
proof -
  have "gameState (fold (\<lambda>entry. call F (ObjectManager_LoadObject entry)) es v) = gameState v"
    for es and v :: "('a, 'b) World"
    by (induction es arbitrary: v) (simp_all add: gameState_call)
  then show ?thesis by (simp add: ObjectListLoad_def Let_def gameState_call)
qed

lemma gameState_OpenEditorWindows:
  "gameState (snd (OpenEditorWindows F w)) = gameState w"
  by (simp add: OpenEditorWindows_def Let_def split_beta)

lemma gameState_FinaliseMainView: "gameState (FinaliseMainView F w) = gameState w"
  by (simp add: FinaliseMainView_def Let_def gameState_call)

lemmas gameState_frames = gameState_call gameState_ObjectListLoad gameState_OpenEditorWindows
  gameState_FinaliseMainView

lemma step_Load: "EditorStep (gameState (Load F K w)) = ObjectSelection"
  by (simp add: Load_def Let_def on_gameState_def on_Park_def split_beta gameState_frames)

lemma step_LoadTrackDesigner: "EditorStep (gameState (LoadTrackDesigner F K w)) = ObjectSelection"
  by (simp add: LoadTrackDesigner_def Let_def on_gameState_def split_beta gameState_frames)

lemma step_LoadTrackManager: "EditorStep (gameState (LoadTrackManager F K w)) = ObjectSelection"
  by (simp add: LoadTrackManager_def Let_def on_gameState_def split_beta gameState_frames)

lemma step_Callback:
  "result = MODAL_RESULT_OK K \<Longrightarrow> LoadParkFromFile F path w \<noteq> None \<Longrightarrow>
   EditorStep (gameState (ConvertSaveToScenarioCallback F K result path w)) = ObjectiveSelection"
  by (auto simp: ConvertSaveToScenarioCallback_def Let_def on_gameState_def gameState_frames)

lemma step_AfterLoadCleanup:
  "EditorStep (gameState (AfterLoadCleanup F K b w)) = LandscapeEditor"
  by (simp add: AfterLoadCleanup_def Let_def on_gameState_def gameState_frames)

lemma ReadS4OrS6_success:
  "fst (ReadS4OrS6 F K path w) \<Longrightarrow>
   \<exists>b w1. snd (ReadS4OrS6 F K path w) = AfterLoadCleanup F K b w1"
  by (auto simp: ReadS4OrS6_def Let_def split: option.splits)

lemma ReadPark_success:
  "fst (ReadPark F K path w) \<Longrightarrow>
   \<exists>b w1. snd (ReadPark F K path w) = AfterLoadCleanup F K b w1"
  by (auto simp: ReadPark_def Let_def split_beta split: option.splits if_splits)

lemma LoadLandscape_success:
  "fst (LoadLandscape F K path w) \<Longrightarrow>
   \<exists>b w1. snd (LoadLandscape F K path w) = AfterLoadCleanup F K b w1"
  by (auto simp: LoadLandscape_def Let_def split: FileExtension.splits
      dest: ReadS4OrS6_success ReadPark_success)

lemma step_LoadLandscape:
  "fst (LoadLandscape F K path w) \<Longrightarrow>
   EditorStep (gameState (snd (LoadLandscape F K path w))) = LandscapeEditor"
  by (auto dest!: LoadLandscape_success simp: step_AfterLoadCleanup)

lemmas cleanup_defs = ClearMapForEditing_def Let_def MapRemoveAllRides_def
  UnlinkAllRideBanners_def RideInitAll_def ResetAllEntities_def
  UpdateConsolidatedPatrolAreas_def FinanceResetCashToInitial_def News_InitQueue_def
  on_Park_def

text \<open>
  C8. Every entry point that reaches its assignment leaves the step it is to leave:
  \<open>Load\<close>, \<open>LoadTrackDesigner\<close> and \<open>LoadTrackManager\<close> leave \<open>ObjectSelection\<close>; the
  callback of \<open>ConvertSaveToScenario\<close>, when the picker returned OK and the park loaded,
  leaves \<open>ObjectiveSelection\<close>; \<open>LoadLandscape\<close>, when it returns true, leaves
  \<open>LandscapeEditor\<close>. After each of them the step is not \<open>Invalid\<close>.
\<close>

theorem entry_points_establish_step:
  "EditorStep (gameState (Load F K w)) = ObjectSelection
   \<and> EditorStep (gameState (LoadTrackDesigner F K w)) = ObjectSelection
   \<and> EditorStep (gameState (LoadTrackManager F K w)) = ObjectSelection
   \<and> (result = MODAL_RESULT_OK K \<and> LoadParkFromFile F path w \<noteq> None \<longrightarrow>
        EditorStep (gameState (ConvertSaveToScenarioCallback F K result path w))
          = ObjectiveSelection)
   \<and> (fst (LoadLandscape F K path w) \<longrightarrow>
        EditorStep (gameState (snd (LoadLandscape F K path w))) = LandscapeEditor)
   \<and> EditorStep (gameState (Load F K w)) \<noteq> Invalid
   \<and> EditorStep (gameState (LoadTrackDesigner F K w)) \<noteq> Invalid
   \<and> EditorStep (gameState (LoadTrackManager F K w)) \<noteq> Invalid
   \<and> (result = MODAL_RESULT_OK K \<and> LoadParkFromFile F path w \<noteq> None \<longrightarrow>
        EditorStep (gameState (ConvertSaveToScenarioCallback F K result path w)) \<noteq> Invalid)
   \<and> (fst (LoadLandscape F K path w) \<longrightarrow>
        EditorStep (gameState (snd (LoadLandscape F K path w))) \<noteq> Invalid)"
  by (simp add: step_Load step_LoadTrackDesigner step_LoadTrackManager step_Callback
      step_LoadLandscape)

lemma example_load_sv6:
  "LoadParkFromFile example_facade ''park.sv6'' example_world \<noteq> None"
  by (simp add: example_facade_def)

lemma example_landscape_park:
  "fst (LoadLandscape example_facade example_constants ''landscape.park'' example_world)"
  by (simp add: LoadLandscape_def ReadPark_def Let_def call_def example_facade_def
      example_string_defs)

theorem entry_points_establish_step_witness:
  "EditorStep (gameState example_world) = Invalid
   \<and> (1 = MODAL_RESULT_OK example_constants
      \<and> LoadParkFromFile example_facade ''park.sv6'' example_world \<noteq> None)
   \<and> EditorStep (gameState
        (ConvertSaveToScenarioCallback example_facade example_constants 1 ''park.sv6''
           example_world)) = ObjectiveSelection
   \<and> fst (LoadLandscape example_facade example_constants ''landscape.park'' example_world)
   \<and> EditorStep (gameState (snd
        (LoadLandscape example_facade example_constants ''landscape.park'' example_world)))
       = LandscapeEditor
   \<and> EditorStep (gameState (Load example_facade example_constants example_world))
       = ObjectSelection"
  using entry_points_establish_step
    [where F = example_facade and K = example_constants and w = example_world
       and result = 1 and path = "''park.sv6''"]
    entry_points_establish_step
    [where F = example_facade and K = example_constants and w = example_world
       and result = 1 and path = "''landscape.park''"]
    example_load_sv6 example_landscape_park
  by (simp add: example_constants_def example_world_def example_park_def)

text \<open>
  A cancelled picker and an unknown file extension: the entry point returns and the step
  is still \<open>Invalid\<close>.
\<close>

theorem entry_point_leaves_Invalid:
  "EditorStep (gameState example_world) = Invalid
   \<and> 0 \<noteq> MODAL_RESULT_OK example_constants
   \<and> EditorStep (gameState
        (ConvertSaveToScenarioCallback example_facade example_constants 0 ''park.sv6''
           example_world)) = Invalid
   \<and> GetFileExtensionType example_facade ''notes.txt'' = OtherExtension
   \<and> fst (LoadLandscape example_facade example_constants ''notes.txt'' example_world) = False
   \<and> EditorStep (gameState (snd
        (LoadLandscape example_facade example_constants ''notes.txt'' example_world)))
       = Invalid"
proof -
  have kind: "GetFileExtensionType example_facade ''notes.txt'' = OtherExtension"
    by (simp add: example_facade_def example_string_defs)
  have start: "EditorStep (gameState example_world) = Invalid"
    by (simp add: example_world_def example_park_def)
  have cancelled: "ConvertSaveToScenarioCallback example_facade example_constants 0
      ''park.sv6'' example_world = example_world"
    by (simp add: ConvertSaveToScenarioCallback_def example_constants_def)
  have unknown: "LoadLandscape example_facade example_constants ''notes.txt'' example_world
      = (False, call example_facade WindowCloseAll example_world)"
    by (simp add: LoadLandscape_def Let_def kind)
  from kind start cancelled unknown show ?thesis
    by (simp add: call_def example_constants_def)
qed

text \<open>
  C5. When the picker's result is not OK, or the park does not load, the callback returns
  the world it was given: step, screen flags and everything else are as before.
\<close>

theorem ConvertSaveToScenarioCallback_cancelled:
  assumes "result \<noteq> MODAL_RESULT_OK K \<or> LoadParkFromFile F path w = None"
  shows "ConvertSaveToScenarioCallback F K result path w = w
    \<and> EditorStep (gameState (ConvertSaveToScenarioCallback F K result path w))
        = EditorStep (gameState w)
    \<and> gScreenFlags (ConvertSaveToScenarioCallback F K result path w) = gScreenFlags w"
  using assms by (auto simp: ConvertSaveToScenarioCallback_def)

theorem ConvertSaveToScenarioCallback_cancelled_witness:
  "0 \<noteq> MODAL_RESULT_OK example_constants
   \<and> ConvertSaveToScenarioCallback example_facade example_constants 0 ''park.sv6''
       example_world = example_world
   \<and> LoadParkFromFile example_facade ''missing.sv6'' example_world = None
   \<and> ConvertSaveToScenarioCallback example_facade example_constants 1 ''missing.sv6''
       example_world = example_world"
proof -
  have cancel: "0 \<noteq> MODAL_RESULT_OK example_constants"
    by (simp add: example_constants_def)
  have missing: "LoadParkFromFile example_facade ''missing.sv6'' example_world = None"
    by (simp add: example_facade_def)
  show ?thesis
    using cancel missing
      ConvertSaveToScenarioCallback_cancelled
        [of 0 example_constants example_facade "''park.sv6''" example_world, OF disjI1 [OF cancel]]
      ConvertSaveToScenarioCallback_cancelled
        [of 1 example_constants example_facade "''missing.sv6''" example_world,
         OF disjI2 [OF missing]]
    by simp
qed

lemma std_clamp_range:
  "lo \<le> hi \<Longrightarrow> lo \<le> std_clamp v lo hi \<and> std_clamp v lo hi \<le> hi"
  by (auto simp: std_clamp_def)

lemma cleanup_GuestInitialCash:
  "GuestInitialCash (ClearMapForEditing F K True gs)
     = std_clamp (GuestInitialCash gs) (GBP K 10) (MAX_ENTRANCE_FEE K)"
  by (simp add: cleanup_defs)

lemma cleanup_InitialCash:
  "InitialCash (ClearMapForEditing F K True gs) = min (InitialCash gs) 100000"
  by (simp add: cleanup_defs)

lemma cleanup_Cash: "Cash (ClearMapForEditing F K True gs) = min (InitialCash gs) 100000"
  by (simp add: cleanup_defs)

lemma cleanup_BankLoan:
  "BankLoan (ClearMapForEditing F K True gs)
     = std_clamp (BankLoan gs) (GBP K 0) (GBP K 5000000)"
  by (simp add: cleanup_defs)

lemma cleanup_MaxBankLoan:
  "MaxBankLoan (ClearMapForEditing F K True gs)
     = std_clamp (MaxBankLoan gs) (GBP K 0) (GBP K 5000000)"
  by (simp add: cleanup_defs)

lemma cleanup_BankLoanInterestRate:
  "BankLoanInterestRate (ClearMapForEditing F K True gs)
     = std_clamp (BankLoanInterestRate gs) 5 (MaxBankLoanInterestRate K)"
  by (simp add: cleanup_defs)

lemma cleanup_rides_and_guests:
  "NumGuestsInPark (ClearMapForEditing F K b gs) = 0
   \<and> MapRides (ClearMapForEditing F K b gs) = []
   \<and> RideRegistry (ClearMapForEditing F K b gs) = []"
  by (simp add: cleanup_defs)

text \<open>
  C4. After the cleanup with \<open>fromSave\<close>: the guests' initial cash lies between
  \<open>10.00_GBP\<close> and \<open>MAX_ENTRANCE_FEE\<close>; the initial cash is the old one cut at 100000, and
  the cash in hand equals it; bank loan and maximum bank loan lie between \<open>0.00_GBP\<close> and
  \<open>5000000.00_GBP\<close>; the interest rate lies between 5 and \<open>MaxBankLoanInterestRate\<close>; no
  guest is counted in the park; no ride is on the map or in the registry. The premises say
  that the bounds handed to \<^verbatim>\<open>std::clamp\<close> are in order.
\<close>

theorem ClearMapForEditing_fromSave_ranges:
  assumes "GBP K 10 \<le> MAX_ENTRANCE_FEE K"
    and "GBP K 0 \<le> GBP K 5000000"
    and "5 \<le> MaxBankLoanInterestRate K"
  shows "GBP K 10 \<le> GuestInitialCash (ClearMapForEditing F K True gs)
    \<and> GuestInitialCash (ClearMapForEditing F K True gs) \<le> MAX_ENTRANCE_FEE K
    \<and> InitialCash (ClearMapForEditing F K True gs) \<le> 100000
    \<and> InitialCash (ClearMapForEditing F K True gs) = min (InitialCash gs) 100000
    \<and> Cash (ClearMapForEditing F K True gs) = InitialCash (ClearMapForEditing F K True gs)
    \<and> GBP K 0 \<le> BankLoan (ClearMapForEditing F K True gs)
    \<and> BankLoan (ClearMapForEditing F K True gs) \<le> GBP K 5000000
    \<and> GBP K 0 \<le> MaxBankLoan (ClearMapForEditing F K True gs)
    \<and> MaxBankLoan (ClearMapForEditing F K True gs) \<le> GBP K 5000000
    \<and> 5 \<le> BankLoanInterestRate (ClearMapForEditing F K True gs)
    \<and> BankLoanInterestRate (ClearMapForEditing F K True gs) \<le> MaxBankLoanInterestRate K
    \<and> NumGuestsInPark (ClearMapForEditing F K True gs) = 0
    \<and> MapRides (ClearMapForEditing F K True gs) = []
    \<and> RideRegistry (ClearMapForEditing F K True gs) = []"
  using std_clamp_range [OF assms(1), of "GuestInitialCash gs"]
    std_clamp_range [OF assms(2), of "BankLoan gs"]
    std_clamp_range [OF assms(2), of "MaxBankLoan gs"]
    std_clamp_range [OF assms(3), of "BankLoanInterestRate gs"]
  by (simp add: cleanup_GuestInitialCash cleanup_InitialCash cleanup_Cash cleanup_BankLoan
      cleanup_MaxBankLoan cleanup_BankLoanInterestRate cleanup_rides_and_guests)

theorem ClearMapForEditing_fromSave_ranges_witness:
  "GBP example_constants 10 \<le> MAX_ENTRANCE_FEE example_constants
   \<and> GBP example_constants 0 \<le> GBP example_constants 5000000
   \<and> 5 \<le> MaxBankLoanInterestRate example_constants
   \<and> GuestInitialCash (ClearMapForEditing example_facade example_constants True example_park)
       = 100
   \<and> InitialCash (ClearMapForEditing example_facade example_constants True example_park)
       = 100000
   \<and> Cash (ClearMapForEditing example_facade example_constants True example_park) = 100000
   \<and> BankLoan (ClearMapForEditing example_facade example_constants True example_park)
       = 50000000
   \<and> MaxBankLoan (ClearMapForEditing example_facade example_constants True example_park) = 0
   \<and> BankLoanInterestRate
       (ClearMapForEditing example_facade example_constants True example_park) = 5
   \<and> MapRides (ClearMapForEditing example_facade example_constants True example_park) = []"
proof -
  have fee: "GBP example_constants 10 \<le> MAX_ENTRANCE_FEE example_constants"
    and loan: "GBP example_constants 0 \<le> GBP example_constants 5000000"
    and rate: "5 \<le> MaxBankLoanInterestRate example_constants"
    by (simp_all add: example_constants_def)
  show ?thesis
    using fee loan rate
      ClearMapForEditing_fromSave_ranges [OF fee loan rate, of example_facade example_park]
    by (simp add: cleanup_GuestInitialCash cleanup_InitialCash cleanup_Cash cleanup_BankLoan
        cleanup_MaxBankLoan cleanup_BankLoanInterestRate std_clamp_def
        example_constants_def example_park_def)
qed

text \<open>
  The flag that \<open>ReadS4OrS6\<close> hands to the cleanup, for every collaborator: it is false
  only for an extension that equals \<open>.sv7\<close> and neither \<open>.sv4\<close> nor \<open>.sv6\<close>.
\<close>

lemma ReadS4OrS6_loadedFromSave_eq:
  "ReadS4OrS6_loadedFromSave F extension =
     (String_IEquals F extension ''.sv4'' \<or> String_IEquals F extension ''.sv6''
      \<or> \<not> String_IEquals F extension ''.sv7'')"
  by (simp add: ReadS4OrS6_loadedFromSave_def)

text \<open>
  C1. The scenario file \<open>park.sc6\<close> is taken by the legacy reader, loads, and is cleaned up
  with \<open>loadedFromSave\<close> true: the result is the cleanup of a save, with the no-money flag
  set and the initial cash cut, not the cleanup of a scenario.
\<close>

theorem ReadS4OrS6_scenario_cleaned_as_save:
  "GetFileExtensionType example_facade ''park.sc6'' = SC6
   \<and> Path_GetExtension example_facade ''park.sc6'' = ''.sc6''
   \<and> ReadS4OrS6_loadedFromSave example_facade ''.sc6'' = True
   \<and> LoadLandscape example_facade example_constants ''park.sc6'' example_world
       = (True, AfterLoadCleanup example_facade example_constants True
            (example_world\<lparr>gameState := example_park, ext := [Inl WindowCloseAll]\<rparr>))
   \<and> Flags (Park (gameState (snd
        (LoadLandscape example_facade example_constants ''park.sc6'' example_world))))
       = PARK_FLAGS_NO_MONEY example_constants OR PARK_FLAGS_PARK_FREE_ENTRY example_constants
   \<and> Flags (Park (gameState (AfterLoadCleanup example_facade example_constants False
        (example_world\<lparr>gameState := example_park, ext := [Inl WindowCloseAll]\<rparr>)))) = 0
   \<and> InitialCash (gameState (snd
        (LoadLandscape example_facade example_constants ''park.sc6'' example_world))) = 100000
   \<and> InitialCash (gameState (AfterLoadCleanup example_facade example_constants False
        (example_world\<lparr>gameState := example_park, ext := [Inl WindowCloseAll]\<rparr>))) = 250000"
proof -
  have suffix: "Path_GetExtension example_facade ''park.sc6'' = ''.sc6''"
    by (simp add: example_facade_def example_string_defs)
  have kind: "GetFileExtensionType example_facade ''park.sc6'' = SC6"
    by (simp add: example_facade_def example_string_defs)
  have flag: "ReadS4OrS6_loadedFromSave example_facade ''.sc6'' = True"
    by (simp add: ReadS4OrS6_loadedFromSave_eq example_facade_def example_string_defs)
  have load: "LoadParkFromFile example_facade ''park.sc6''
        (example_world\<lparr>ext := [Inl WindowCloseAll]\<rparr>)
      = Some (example_world\<lparr>gameState := example_park, ext := [Inl WindowCloseAll]\<rparr>)"
    by (simp add: example_facade_def example_world_def)
  have closed: "call example_facade WindowCloseAll example_world
      = example_world\<lparr>ext := [Inl WindowCloseAll]\<rparr>"
    by (simp add: call_def example_facade_def example_world_def)
  have run: "LoadLandscape example_facade example_constants ''park.sc6'' example_world
       = (True, AfterLoadCleanup example_facade example_constants True
            (example_world\<lparr>gameState := example_park, ext := [Inl WindowCloseAll]\<rparr>))"
    by (simp add: LoadLandscape_def ReadS4OrS6_def Let_def kind suffix flag load closed)
  have save: "Flags (Park (gameState (AfterLoadCleanup example_facade example_constants True
        (example_world\<lparr>gameState := example_park, ext := [Inl WindowCloseAll]\<rparr>))))
       = PARK_FLAGS_NO_MONEY example_constants OR PARK_FLAGS_PARK_FREE_ENTRY example_constants"
    by (simp add: AfterLoadCleanup_def on_gameState_def gameState_frames cleanup_defs
        example_constants_def example_park_def)
  have scenario: "Flags (Park (gameState (AfterLoadCleanup example_facade example_constants
        False (example_world\<lparr>gameState := example_park, ext := [Inl WindowCloseAll]\<rparr>)))) = 0"
    by (simp add: AfterLoadCleanup_def on_gameState_def gameState_frames cleanup_defs
        example_park_def)
  have cash_save: "InitialCash (gameState (AfterLoadCleanup example_facade example_constants
        True (example_world\<lparr>gameState := example_park, ext := [Inl WindowCloseAll]\<rparr>)))
       = 100000"
    by (simp add: AfterLoadCleanup_def on_gameState_def gameState_frames cleanup_defs
        example_park_def)
  have cash_scenario: "InitialCash (gameState (AfterLoadCleanup example_facade
        example_constants False
        (example_world\<lparr>gameState := example_park, ext := [Inl WindowCloseAll]\<rparr>))) = 250000"
    by (simp add: AfterLoadCleanup_def on_gameState_def gameState_frames cleanup_defs
        example_park_def)
  from suffix kind flag run save scenario cash_save cash_scenario show ?thesis
    by simp
qed

end
